theory Spec2Isabelle
  imports Complex_Main "HOL-Library.Word" "HOL-Library.Sublist"
begin

section \<open>JavaScript values used by the weather server\<close>

text \<open>
  A JavaScript string is a sequence of UTF-16 code units. String literals of the
  source are written through \<open>str\<close>, which maps every ASCII character to its code unit;
  characters beyond ASCII are given by their code unit.
\<close>

type_synonym jschar = "16 word"
type_synonym jsstring = "jschar list"

definition str :: "string \<Rightarrow> jsstring" where
  "str s = map of_char s"

text \<open>
  \<open>String.prototype.trim\<close> removes the code units of the ECMAScript productions
  WhiteSpace and LineTerminator from both ends.
\<close>

definition isWhiteSpace :: "jschar \<Rightarrow> bool" where
  "isWhiteSpace c \<longleftrightarrow>
     c = 0x0009 \<or> c = 0x000A \<or> c = 0x000B \<or> c = 0x000C \<or> c = 0x000D \<or> c = 0x0020 \<or>
     c = 0x00A0 \<or> c = 0x1680 \<or> (0x2000 \<le> c \<and> c \<le> 0x200A) \<or> c = 0x2028 \<or>
     c = 0x2029 \<or> c = 0x202F \<or> c = 0x205F \<or> c = 0x3000 \<or> c = 0xFEFF"

definition trim :: "jsstring \<Rightarrow> jsstring" where
  "trim s = rev (dropWhile isWhiteSpace (rev (dropWhile isWhiteSpace s)))"

text \<open>\<open>Array.prototype.join\<close> on an array of strings.\<close>

fun join :: "jsstring \<Rightarrow> jsstring list \<Rightarrow> jsstring" where
  "join sep [] = []"
| "join sep [x] = x"
| "join sep (x # y # ys) = x @ sep @ join sep (y # ys)"

text \<open>
  \<open>[a, b, c].filter(Boolean)\<close> on entries of type \<open>string | undefined\<close> keeps the
  entries that are present and not the empty string.
\<close>

fun filterBoolean :: "jsstring option list \<Rightarrow> jsstring list" where
  "filterBoolean [] = []"
| "filterBoolean (None # xs) = filterBoolean xs"
| "filterBoolean (Some s # xs) = (if s = [] then filterBoolean xs else s # filterBoolean xs)"

text \<open>\<open>xs?.[0]\<close>: the first element, \<open>undefined\<close> when the array is absent or empty.\<close>

fun index0 :: "'a list option \<Rightarrow> 'a option" where
  "index0 None = None"
| "index0 (Some []) = None"
| "index0 (Some (x # xs)) = Some x"

text \<open>\<open>a ?? b\<close> on an optional value, with \<open>b\<close> a value or itself optional.\<close>

fun nullish :: "'a option \<Rightarrow> 'a \<Rightarrow> 'a" where
  "nullish None d = d"
| "nullish (Some v) d = v"

fun nullishOr :: "'a option \<Rightarrow> 'a option \<Rightarrow> 'a option" where
  "nullishOr None d = d"
| "nullishOr (Some v) d = Some v"

text \<open>
  A JavaScript number is a finite double, which is a rational, or one of three special
  values. Both zeros are \<open>Finite 0\<close>: \<open>-0 === 0\<close> holds in JavaScript.
\<close>

datatype number = Finite rat | NaN | PosInfinity | NegInfinity

text \<open>The decimal digits of a non-negative integer, as a template literal prints an
  HTTP status.\<close>

fun natToString :: "nat \<Rightarrow> jsstring" where
  "natToString n =
     (if n < 10 then [of_nat (48 + n)]
      else natToString (n div 10) @ [of_nat (48 + n mod 10)])"

declare natToString.simps [simp del]

text \<open>A thrown value is an \<open>Error\<close> instance carrying its message, or anything else.\<close>

datatype thrown = Error jsstring | NonError

section \<open>The weather-code translator\<close>

text \<open>
  \<open>wmoWeatherCodeToText(code: number | undefined)\<close>; the server and the page hold the
  same \<open>switch\<close>, whose cases compare with \<open>===\<close> and fall through to \<open>default\<close>.
\<close>

definition wmoWeatherCodeToText :: "number option \<Rightarrow> jsstring" where
  "wmoWeatherCodeToText code =
     (case code of
        Some (Finite c) \<Rightarrow>
          (if c = 0 then str ''Clear sky''
           else if c = 1 \<or> c = 2 \<or> c = 3 then str ''Partly cloudy''
           else if c = 45 \<or> c = 48 then str ''Fog''
           else if c = 51 \<or> c = 53 \<or> c = 55 then str ''Drizzle''
           else if c = 56 \<or> c = 57 then str ''Freezing drizzle''
           else if c = 61 \<or> c = 63 \<or> c = 65 then str ''Rain''
           else if c = 66 \<or> c = 67 then str ''Freezing rain''
           else if c = 71 \<or> c = 73 \<or> c = 75 then str ''Snow''
           else if c = 77 then str ''Snow grains''
           else if c = 80 \<or> c = 81 \<or> c = 82 then str ''Rain showers''
           else if c = 85 \<or> c = 86 then str ''Snow showers''
           else if c = 95 then str ''Thunderstorm''
           else if c = 96 \<or> c = 99 then str ''Thunderstorm with hail''
           else str ''Unknown conditions'')
      | _ \<Rightarrow> str ''Unknown conditions'')"

text \<open>The strings the \<open>switch\<close> can return.\<close>

definition conditionTexts :: "jsstring list" where
  "conditionTexts =
     [str ''Clear sky'', str ''Partly cloudy'', str ''Fog'', str ''Drizzle'',
      str ''Freezing drizzle'', str ''Rain'', str ''Freezing rain'', str ''Snow'',
      str ''Snow grains'', str ''Rain showers'', str ''Snow showers'', str ''Thunderstorm'',
      str ''Thunderstorm with hail'', str ''Unknown conditions'']"

section \<open>Upstream responses\<close>

text \<open>
  The JSON bodies are read through the TypeScript types of the source
  (\<open>OpenMeteoGeocodingResponse\<close>, \<open>OpenMeteoForecastResponse\<close> and the page's inline
  types): an optional property is an \<open>option\<close>. Every property the composers read with
  \<open>?.\<close> or \<open>??\<close> is optional here, as the page declares it. Properties the composers
  never read are left out.
\<close>

record GeoResult =
  geo_name :: jsstring
  geo_latitude :: number
  geo_longitude :: number
  country :: "jsstring option"
  admin1 :: "jsstring option"
  geo_timezone :: "jsstring option"

record OpenMeteoGeocodingResponse =
  results :: "GeoResult list option"

record ForecastCurrent =
  cur_time :: "jsstring option"
  temperature_2m :: "number option"
  weather_code :: "number option"
  wind_speed_10m :: "number option"

record ForecastDaily =
  daily_time :: "jsstring list option"
  temperature_2m_max :: "number list option"
  temperature_2m_min :: "number list option"
  precipitation_probability_max :: "number list option"

record ForecastUnits =
  unit_temperature_2m :: "jsstring option"
  unit_wind_speed_10m :: "jsstring option"

record OpenMeteoForecastResponse =
  fc_timezone :: "jsstring option"
  fc_current :: "ForecastCurrent option"
  daily :: "ForecastDaily option"
  current_units :: "ForecastUnits option"

text \<open>
  What \<open>fetch\<close> resolves to: \<open>res.ok\<close>, \<open>res.status\<close>, and the outcomes of
  \<open>res.text()\<close> and \<open>res.json()\<close>, each of which may reject.
\<close>

record 'j Response =
  ok :: bool
  status :: nat
  res_text :: "thrown + jsstring"
  res_json :: "thrown + 'j"

text \<open>
  The world outside the composers. \<open>fetch\<close> may reject (\<open>Inl\<close>) or resolve to a
  response; it is given once per response type, the two services living at different
  hosts. \<open>encodeURIComponent\<close> may throw \<open>URIError\<close>. \<open>numberToString n\<close> is what a
  template literal prints for \<open>n\<close>, \<open>roundToString n\<close> what it prints for
  \<open>Math.round(n)\<close>.
\<close>

record env =
  encodeURIComponent :: "jsstring \<Rightarrow> thrown + jsstring"
  numberToString :: "number \<Rightarrow> jsstring"
  roundToString :: "number \<Rightarrow> jsstring"
  fetchGeo :: "jsstring \<Rightarrow> thrown + OpenMeteoGeocodingResponse Response"
  fetchForecast :: "jsstring \<Rightarrow> thrown + OpenMeteoForecastResponse Response"

section \<open>The structured result\<close>

text \<open>\<open>WeatherStructuredContent\<close> as the page declares it.\<close>

record Location =
  name :: jsstring
  latitude :: number
  longitude :: number
  timezone :: "jsstring option"

record CurrentConditions =
  time :: "jsstring option"
  temperature :: "number option"
  temperatureUnit :: "jsstring option"
  windSpeed :: "number option"
  windSpeedUnit :: "jsstring option"
  weatherCode :: "number option"
  conditions :: "jsstring option"

record DailyForecast =
  date :: "jsstring option"
  high :: "number option"
  low :: "number option"
  precipitationChance :: "number option"
  precipitationChanceUnit :: "jsstring option"

record WeatherData =
  query :: jsstring
  source :: jsstring
  location :: Location
  current :: CurrentConditions
  today :: DailyForecast

datatype WeatherStructuredContent =
  Weather WeatherData
| WeatherError jsstring jsstring

text \<open>The fields of a \<open>weather_error\<close> value; \<open>None\<close> on a \<open>weather\<close> value.\<close>

fun errorQuery :: "WeatherStructuredContent \<Rightarrow> jsstring option" where
  "errorQuery (WeatherError q e) = Some q"
| "errorQuery (Weather d) = None"

fun errorMessage :: "WeatherStructuredContent \<Rightarrow> jsstring option" where
  "errorMessage (WeatherError q e) = Some e"
| "errorMessage (Weather d) = None"

section \<open>The two request URLs\<close>

definition geoUrlOf :: "jsstring \<Rightarrow> jsstring" where
  "geoUrlOf enc =
     str ''https://geocoding-api.open-meteo.com/v1/search?name='' @ enc @
     str ''&count=1&language=en&format=json''"

definition forecastUrlOf :: "env \<Rightarrow> number \<Rightarrow> number \<Rightarrow> jsstring" where
  "forecastUrlOf e lat lon =
     str ''https://api.open-meteo.com/v1/forecast?latitude='' @ numberToString e lat @
     str ''&longitude='' @ numberToString e lon @
     str ''&current=temperature_2m,weather_code,wind_speed_10m&daily=temperature_2m_max,temperature_2m_min,precipitation_probability_max&timezone=auto''"

definition notFoundMessage :: "jsstring \<Rightarrow> jsstring" where
  "notFoundMessage trimmed =
     str ''Couldn't find a location for \"'' @ trimmed @
     str ''\". Try including a country/state (e.g. \"Paris, France\").''"

section \<open>The server's composer\<close>

text \<open>
  \<open>fetchJsonOrThrow<T>(url)\<close>: one \<open>fetch\<close>; a response that is not \<open>ok\<close> is thrown
  as an \<open>Error\<close> whose message holds the status, the URL and the body text (the empty
  string when \<open>res.text()\<close> rejects); otherwise the outcome of \<open>res.json()\<close>.
\<close>

definition fetchJsonOrThrow :: "(jsstring \<Rightarrow> thrown + 'j Response) \<Rightarrow> jsstring \<Rightarrow> thrown + 'j" where
  "fetchJsonOrThrow fetch url =
     (case fetch url of
        Inl e \<Rightarrow> Inl e
      | Inr res \<Rightarrow>
          if \<not> ok res then
            (let text = (case res_text res of Inl e \<Rightarrow> [] | Inr t \<Rightarrow> t)
             in Inl (Error (str ''Request failed ('' @ natToString (status res) @
                            str '') for '' @ url @ str '': '' @ text)))
          else res_json res)"

text \<open>
  \<open>getWeatherForCity\<close> returns \<open>{ok: false, error}\<close> or \<open>{ok: true, data}\<close>, or throws.
  The model returns the outcome together with the URLs it fetched, in order. The default
  of \<open>temperatureUnit\<close> is the literal of the server's source, whose three code units
  are U+00C2, U+00B0 and \<open>C\<close>.
\<close>

datatype CityResult = Failure jsstring | Success WeatherData

definition getWeatherForCity :: "env \<Rightarrow> jsstring \<Rightarrow> (thrown + CityResult) \<times> jsstring list" where
  "getWeatherForCity e city =
     (let trimmed = trim city in
      if trimmed = [] then (Inl (Error (str ''City is required.'')), [])
      else
        case encodeURIComponent e trimmed of
          Inl ex \<Rightarrow> (Inl ex, [])
        | Inr enc \<Rightarrow>
            (let geoUrl = geoUrlOf enc in
             case fetchJsonOrThrow (fetchGeo e) geoUrl of
               Inl ex \<Rightarrow> (Inl ex, [geoUrl])
             | Inr geo \<Rightarrow>
                 (case index0 (results geo) of
                    None \<Rightarrow> (Inr (Failure (notFoundMessage trimmed)), [geoUrl])
                  | Some best \<Rightarrow>
                      (let forecastUrl = forecastUrlOf e (geo_latitude best) (geo_longitude best) in
                       case fetchJsonOrThrow (fetchForecast e) forecastUrl of
                         Inl ex \<Rightarrow> (Inl ex, [geoUrl, forecastUrl])
                       | Inr forecast \<Rightarrow>
                           (let todayHigh = index0 (Option.bind (daily forecast) temperature_2m_max);
                                todayLow = index0 (Option.bind (daily forecast) temperature_2m_min);
                                todayPrecipChance =
                                  index0 (Option.bind (daily forecast) precipitation_probability_max);
                                locationLabel =
                                  join (str '', '')
                                    (filterBoolean [Some (geo_name best), admin1 best, country best]);
                                temp = Option.bind (fc_current forecast) temperature_2m;
                                wind = Option.bind (fc_current forecast) wind_speed_10m;
                                code = Option.bind (fc_current forecast) weather_code;
                                conditions = wmoWeatherCodeToText code
                            in (Inr (Success
                                  \<lparr>query = trimmed,
                                   source = str ''Open-Meteo (no API key)'',
                                   location =
                                     \<lparr>name = locationLabel,
                                      latitude = geo_latitude best,
                                      longitude = geo_longitude best,
                                      timezone =
                                        nullishOr (fc_timezone forecast) (geo_timezone best)\<rparr>,
                                   current =
                                     \<lparr>time = Option.bind (fc_current forecast) cur_time,
                                      temperature = temp,
                                      temperatureUnit =
                                        Some (nullish
                                          (Option.bind (current_units forecast) unit_temperature_2m)
                                          [0xC2, 0xB0, 0x43]),
                                      windSpeed = wind,
                                      windSpeedUnit =
                                        Some (nullish
                                          (Option.bind (current_units forecast) unit_wind_speed_10m)
                                          (str ''km/h'')),
                                      weatherCode = code,
                                      conditions = Some conditions\<rparr>,
                                   today =
                                     \<lparr>date = index0 (Option.bind (daily forecast) daily_time),
                                      high = todayHigh,
                                      low = todayLow,
                                      precipitationChance = todayPrecipChance,
                                      precipitationChanceUnit = Some (str ''%'')\<rparr>\<rparr>),
                                [geoUrl, forecastUrl]))))))"

text \<open>
  The callback registered for the tool \<open>get_weather\<close>. Its \<open>.catch\<close> turns every
  rejection of \<open>getWeatherForCity\<close> into \<open>{ok: false, error}\<close>, so the callback has no
  exceptional outcome. The result holds the text of \<open>content[0]\<close> and
  \<open>structuredContent\<close>; the constant \<open>_meta\<close> is left out. A template literal prints
  an absent value as \<open>undefined\<close>. The input schema of the tool (a string of at least
  one character) is checked by the protocol library before the callback runs; the model
  is the callback, on every string.
\<close>

record ToolResult =
  content_text :: jsstring
  structuredContent :: WeatherStructuredContent

fun template :: "jsstring option \<Rightarrow> jsstring" where
  "template None = str ''undefined''"
| "template (Some s) = s"

definition summaryParts :: "env \<Rightarrow> WeatherData \<Rightarrow> jsstring list" where
  "summaryParts e d =
     [str ''Weather for '' @ name (location d)] @
     (case temperature (current d) of
        None \<Rightarrow> []
      | Some t \<Rightarrow>
          [str ''Now: '' @ roundToString e t @ template (temperatureUnit (current d)) @
           str '' ('' @ template (conditions (current d)) @ str '')'']) @
     (case (high (today d), low (today d)) of
        (Some h, Some l) \<Rightarrow>
          [str ''Today: H '' @ roundToString e h @ template (temperatureUnit (current d)) @
           str '' / L '' @ roundToString e l @ template (temperatureUnit (current d))]
      | _ \<Rightarrow> []) @
     (case precipitationChance (today d) of
        None \<Rightarrow> []
      | Some p \<Rightarrow> [str ''Precip chance: '' @ roundToString e p @ str ''%''])"

definition get_weather :: "env \<Rightarrow> jsstring \<Rightarrow> ToolResult \<times> jsstring list" where
  "get_weather e city =
     (let (outcome, calls) = getWeatherForCity e city;
          result =
            (case outcome of
               Inl (Error m) \<Rightarrow> Failure m
             | Inl NonError \<Rightarrow> Failure (str ''Failed to fetch weather for this city.'')
             | Inr r \<Rightarrow> r)
      in case result of
           Failure err \<Rightarrow>
             (\<lparr>content_text = err, structuredContent = WeatherError city err\<rparr>, calls)
         | Success d \<Rightarrow>
             (\<lparr>content_text = join [0x0A] (summaryParts e d), structuredContent = Weather d\<rparr>,
              calls))"

section \<open>The page's composer\<close>

text \<open>
  \<open>fetchWeatherOpenMeteo\<close> returns the structured content itself. Its \<open>catch\<close> clause
  covers everything after the check of the trimmed city.
\<close>

definition caught :: "jsstring \<Rightarrow> thrown \<Rightarrow> WeatherStructuredContent" where
  "caught trimmed ex =
     WeatherError trimmed
       (case ex of Error m \<Rightarrow> m | NonError \<Rightarrow> str ''Failed to fetch weather.'')"

definition fetchWeatherOpenMeteo :: "env \<Rightarrow> jsstring \<Rightarrow> WeatherStructuredContent \<times> jsstring list" where
  "fetchWeatherOpenMeteo e city =
     (let trimmed = trim city in
      if trimmed = [] then (WeatherError city (str ''City is required.''), [])
      else
        case encodeURIComponent e trimmed of
          Inl ex \<Rightarrow> (caught trimmed ex, [])
        | Inr enc \<Rightarrow>
            (let geoUrl = geoUrlOf enc in
             case fetchGeo e geoUrl of
               Inl ex \<Rightarrow> (caught trimmed ex, [geoUrl])
             | Inr geoRes \<Rightarrow>
                 if \<not> ok geoRes then
                   (WeatherError trimmed
                      (str ''Geocoding failed ('' @ natToString (status geoRes) @ str '').''),
                    [geoUrl])
                 else
                   (case res_json geoRes of
                      Inl ex \<Rightarrow> (caught trimmed ex, [geoUrl])
                    | Inr geo \<Rightarrow>
                        (case index0 (results geo) of
                           None \<Rightarrow> (WeatherError trimmed (notFoundMessage trimmed), [geoUrl])
                         | Some best \<Rightarrow>
                             (let forecastUrl =
                                    forecastUrlOf e (geo_latitude best) (geo_longitude best) in
                              case fetchForecast e forecastUrl of
                                Inl ex \<Rightarrow> (caught trimmed ex, [geoUrl, forecastUrl])
                              | Inr fcRes \<Rightarrow>
                                  if \<not> ok fcRes then
                                    (WeatherError trimmed
                                       (str ''Forecast failed ('' @ natToString (status fcRes) @
                                        str '').''),
                                     [geoUrl, forecastUrl])
                                  else
                                    (case res_json fcRes of
                                       Inl ex \<Rightarrow> (caught trimmed ex, [geoUrl, forecastUrl])
                                     | Inr fc \<Rightarrow>
                                         (let locationLabel =
                                                join (str '', '')
                                                  (filterBoolean
                                                     [Some (geo_name best), admin1 best, country best]);
                                              code = Option.bind (fc_current fc) weather_code
                                          in (Weather
                                                \<lparr>query = trimmed,
                                                 source = str ''Open-Meteo (no API key)'',
                                                 location =
                                                   \<lparr>name = locationLabel,
                                                    latitude = geo_latitude best,
                                                    longitude = geo_longitude best,
                                                    timezone =
                                                      nullishOr (fc_timezone fc)
                                                        (geo_timezone best)\<rparr>,
                                                 current =
                                                   \<lparr>time = Option.bind (fc_current fc) cur_time,
                                                    temperature =
                                                      Option.bind (fc_current fc) temperature_2m,
                                                    temperatureUnit =
                                                      Some (nullish
                                                        (Option.bind (current_units fc)
                                                           unit_temperature_2m)
                                                        [0xB0, 0x43]),
                                                    windSpeed =
                                                      Option.bind (fc_current fc) wind_speed_10m,
                                                    windSpeedUnit =
                                                      Some (nullish
                                                        (Option.bind (current_units fc)
                                                           unit_wind_speed_10m)
                                                        (str ''km/h'')),
                                                    weatherCode = code,
                                                    conditions = Some (wmoWeatherCodeToText code)\<rparr>,
                                                 today =
                                                   \<lparr>date =
                                                      index0 (Option.bind (daily fc) daily_time),
                                                    high =
                                                      index0 (Option.bind (daily fc) temperature_2m_max),
                                                    low =
                                                      index0 (Option.bind (daily fc) temperature_2m_min),
                                                    precipitationChance =
                                                      index0 (Option.bind (daily fc)
                                                        precipitation_probability_max),
                                                    precipitationChanceUnit = Some (str ''%'')\<rparr>\<rparr>,
                                              [geoUrl, forecastUrl]))))))))"

section \<open>Sample worlds\<close>

text \<open>
  Small worlds on which the composers are run: a geocoder and a forecast service that
  answer every request the same way. \<open>sampleNumberToString\<close> prints the numbers the
  samples use.
\<close>

definition sampleNumberToString :: "number \<Rightarrow> jsstring" where
  "sampleNumberToString n =
     (if n = Finite 48 then str ''48'' else if n = Finite 2 then str ''2''
      else if n = Finite 21 then str ''21'' else str ''0'')"

definition okResponse :: "'j \<Rightarrow> 'j Response" where
  "okResponse j = \<lparr>ok = True, status = 200, res_text = Inr [], res_json = Inr j\<rparr>"

definition errorResponse :: "nat \<Rightarrow> 'j Response" where
  "errorResponse n =
     \<lparr>ok = False, status = n, res_text = Inr (str ''busy''),
      res_json = Inl (Error (str ''Unexpected token''))\<rparr>"

definition world ::
  "(thrown + OpenMeteoGeocodingResponse Response) \<Rightarrow>
   (thrown + OpenMeteoForecastResponse Response) \<Rightarrow> env" where
  "world g f =
     \<lparr>encodeURIComponent = Inr,
      numberToString = sampleNumberToString,
      roundToString = sampleNumberToString,
      fetchGeo = (\<lambda>url. g),
      fetchForecast = (\<lambda>url. f)\<rparr>"

definition paris :: GeoResult where
  "paris =
     \<lparr>geo_name = str ''Paris'', geo_latitude = Finite 48, geo_longitude = Finite 2,
      country = Some (str ''France''), admin1 = Some (str ''Ile-de-France''),
      geo_timezone = Some (str ''Europe/Paris'')\<rparr>"

definition nameless :: GeoResult where
  "nameless =
     \<lparr>geo_name = [], geo_latitude = Finite 0, geo_longitude = Finite 0,
      country = None, admin1 = None, geo_timezone = None\<rparr>"

definition emptyForecast :: OpenMeteoForecastResponse where
  "emptyForecast = \<lparr>fc_timezone = None, fc_current = None, daily = None, current_units = None\<rparr>"

definition parisWeather :: "jsstring \<Rightarrow> WeatherData" where
  "parisWeather degrees =
     \<lparr>query = str ''Paris'',
      source = str ''Open-Meteo (no API key)'',
      location =
        \<lparr>name = str ''Paris, Ile-de-France, France'', latitude = Finite 48,
         longitude = Finite 2, timezone = Some (str ''Europe/Paris'')\<rparr>,
      current =
        \<lparr>time = None, temperature = None, temperatureUnit = Some degrees, windSpeed = None,
         windSpeedUnit = Some (str ''km/h''), weatherCode = None,
         conditions = Some (str ''Unknown conditions'')\<rparr>,
      today =
        \<lparr>date = None, high = None, low = None, precipitationChance = None,
         precipitationChanceUnit = Some (str ''%'')\<rparr>\<rparr>"

definition found :: "GeoResult \<Rightarrow> thrown + OpenMeteoGeocodingResponse Response" where
  "found g = Inr (okResponse \<lparr>results = Some [g]\<rparr>)"

definition notFound :: "thrown + OpenMeteoGeocodingResponse Response" where
  "notFound = Inr (okResponse \<lparr>results = None\<rparr>)"

section \<open>Vocabulary of the properties\<close>

text \<open>
  An upstream call fails when \<open>fetch\<close> rejects (a network exception) or resolves to a
  response whose status is not a success.
\<close>

definition callFails :: "thrown + 'j Response \<Rightarrow> bool" where
  "callFails r = (case r of Inl ex \<Rightarrow> True | Inr res \<Rightarrow> \<not> ok res)"

text \<open>The data of a \<open>weather\<close> value; \<open>None\<close> on a \<open>weather_error\<close> value.\<close>

fun weatherOf :: "WeatherStructuredContent \<Rightarrow> WeatherData option" where
  "weatherOf (Weather d) = Some d"
| "weatherOf (WeatherError q e) = None"

text \<open>
  Names for the two inner object literals of the value both composers return, \<open>today\<close>
  and \<open>current\<close>, the latter with the composer's literal for the temperature unit. They
  shorten the statements of the lemmas about the composers.
\<close>

definition todayFields :: "OpenMeteoForecastResponse \<Rightarrow> DailyForecast" where
  "todayFields f =
     \<lparr>date = index0 (Option.bind (daily f) daily_time),
      high = index0 (Option.bind (daily f) temperature_2m_max),
      low = index0 (Option.bind (daily f) temperature_2m_min),
      precipitationChance = index0 (Option.bind (daily f) precipitation_probability_max),
      precipitationChanceUnit = Some (str ''%'')\<rparr>"

definition currentFields :: "jsstring \<Rightarrow> OpenMeteoForecastResponse \<Rightarrow> CurrentConditions" where
  "currentFields degrees f =
     \<lparr>time = Option.bind (fc_current f) cur_time,
      temperature = Option.bind (fc_current f) temperature_2m,
      temperatureUnit =
        Some (nullish (Option.bind (current_units f) unit_temperature_2m) degrees),
      windSpeed = Option.bind (fc_current f) wind_speed_10m,
      windSpeedUnit =
        Some (nullish (Option.bind (current_units f) unit_wind_speed_10m) (str ''km/h'')),
      weatherCode = Option.bind (fc_current f) weather_code,
      conditions = Some (wmoWeatherCodeToText (Option.bind (fc_current f) weather_code))\<rparr>"

text \<open>
  Modelled from the spec: the output of the forecast adapter of section 4.2, the raw
  forecast fields: the current time, temperature with its unit, wind speed with its unit
  and weather code, and for today the date, the high, the low and the precipitation
  probability.
\<close>

record ForecastFields =
  ff_time :: "jsstring option"
  ff_temperature :: "number option"
  ff_temperatureUnit :: jsstring
  ff_windSpeed :: "number option"
  ff_windSpeedUnit :: jsstring
  ff_weatherCode :: "number option"
  ff_date :: "jsstring option"
  ff_high :: "number option"
  ff_low :: "number option"
  ff_precipitationChance :: "number option"

text \<open>
  Modelled from the spec: "today only; index 0 of the daily series". A series that is
  absent or empty has no value for today.
\<close>

definition seriesToday :: "OpenMeteoForecastResponse \<Rightarrow> (ForecastDaily \<Rightarrow> 'a list option) \<Rightarrow> 'a option" where
  "seriesToday f series =
     (case daily f of
        None \<Rightarrow> None
      | Some d \<Rightarrow>
          (case series d of None \<Rightarrow> None | Some [] \<Rightarrow> None | Some (x # xs) \<Rightarrow> Some x))"

text \<open>
  Modelled from the spec: a field of the current conditions, "passed through unmodified":
  absent when the response has no current conditions or they omit the field.
\<close>

definition currentNow :: "OpenMeteoForecastResponse \<Rightarrow> (ForecastCurrent \<Rightarrow> 'a option) \<Rightarrow> 'a option" where
  "currentNow f field = (case fc_current f of None \<Rightarrow> None | Some c \<Rightarrow> field c)"

text \<open>
  Modelled from the spec: unit defaulting, "if the upstream response omits unit
  metadata": the unit of the response, or the fallback when the unit metadata or the
  unit is absent.
\<close>

definition unitOr :: "OpenMeteoForecastResponse \<Rightarrow> (ForecastUnits \<Rightarrow> jsstring option) \<Rightarrow> jsstring \<Rightarrow> jsstring" where
  "unitOr f field fallback =
     (case current_units f of
        None \<Rightarrow> fallback
      | Some u \<Rightarrow> (case field u of None \<Rightarrow> fallback | Some s \<Rightarrow> s))"

text \<open>
  Modelled from the spec: the forecast adapter of section 4.2, which the source does not
  hold as a function of its own (both composers make the forecast request and read its
  fields inline). Its input is a pair of coordinates. It makes the forecast call for
  them and gives the raw forecast fields, passed through unmodified, except that the
  temperature unit defaults to the Celsius symbol (the degree sign followed by \<open>C\<close>)
  and the wind speed unit to \<open>km/h\<close>. The adapter gives \<open>None\<close> when the forecast call
  fails.
\<close>

definition forecastAdapter :: "env \<Rightarrow> number \<Rightarrow> number \<Rightarrow> ForecastFields option" where
  "forecastAdapter e lat lon =
     (case fetchForecast e (forecastUrlOf e lat lon) of
        Inl ex \<Rightarrow> None
      | Inr res \<Rightarrow>
          if \<not> ok res then None
          else
            (case res_json res of
               Inl ex \<Rightarrow> None
             | Inr f \<Rightarrow>
                 Some
                   \<lparr>ff_time = currentNow f cur_time,
                    ff_temperature = currentNow f temperature_2m,
                    ff_temperatureUnit = unitOr f unit_temperature_2m [0xB0, 0x43],
                    ff_windSpeed = currentNow f wind_speed_10m,
                    ff_windSpeedUnit = unitOr f unit_wind_speed_10m (str ''km/h''),
                    ff_weatherCode = currentNow f weather_code,
                    ff_date = seriesToday f daily_time,
                    ff_high = seriesToday f temperature_2m_max,
                    ff_low = seriesToday f temperature_2m_min,
                    ff_precipitationChance = seriesToday f precipitation_probability_max\<rparr>))"

section \<open>Facts about the string operations\<close>

lemma trim_eq_Nil_iff: "trim s = [] \<longleftrightarrow> (\<forall>c\<in>set s. isWhiteSpace c)"
proof
  assume "\<forall>c\<in>set s. isWhiteSpace c"
  then have d: "dropWhile isWhiteSpace s = []" by (simp add: dropWhile_eq_Nil_conv)
  show "trim s = []" unfolding trim_def d by simp
next
  assume t: "trim s = []"
  show "\<forall>c\<in>set s. isWhiteSpace c"
  proof (rule ccontr)
    assume "\<not> (\<forall>c\<in>set s. isWhiteSpace c)"
    then have ne: "dropWhile isWhiteSpace s \<noteq> []" by (simp add: dropWhile_eq_Nil_conv)
    then have "\<not> isWhiteSpace (hd (dropWhile isWhiteSpace s))" by (rule hd_dropWhile)
    moreover have "hd (dropWhile isWhiteSpace s) \<in> set (rev (dropWhile isWhiteSpace s))"
      using ne by simp
    ultimately have "dropWhile isWhiteSpace (rev (dropWhile isWhiteSpace s)) \<noteq> []"
      by (metis dropWhile_eq_Nil_conv)
    with t show False by (simp add: trim_def)
  qed
qed

lemma trim_Paris: "trim (str ''Paris'') = str ''Paris''"
  by (simp add: trim_def str_def isWhiteSpace_def)

lemma trim_sp_Paris: "trim (str '' Paris'') = str ''Paris''"
  by (simp add: trim_def str_def isWhiteSpace_def)

lemma str_Paris_nonempty: "str ''Paris'' \<noteq> []"
  by (simp add: str_def)

lemma notFoundMessage_split: "notFoundMessage t =
      (str ''Couldn't find a location for \"'' @ t @ str ''\". '') @
      str ''Try including a country/state'' @ str '' (e.g. \"Paris, France\").''"
    by (simp add: notFoundMessage_def str_def)

lemma notFoundMessage_suggests:
  "sublist (str ''Try including a country/state'') (notFoundMessage t)"
  unfolding notFoundMessage_split by (rule sublist_appendI)

lemma natToString_503: "natToString 503 = str ''503''"
  by (simp add: natToString.simps str_def)

lemma natToString_500: "natToString 500 = str ''500''"
  by (simp add: natToString.simps str_def)

lemma index0_None_iff: "index0 xs = None \<longleftrightarrow> xs = None \<or> xs = Some []"
  by (cases xs rule: index0.cases) simp_all

lemma filterBoolean_nonempty: "[] \<notin> set (filterBoolean xs)"
  by (induction xs rule: filterBoolean.induct) simp_all

lemma filterBoolean_Nil_iff: "filterBoolean xs = [] \<longleftrightarrow> (\<forall>x\<in>set xs. x = None \<or> x = Some [])"
  by (induction xs rule: filterBoolean.induct) simp_all

lemma join_Nil_iff: "[] \<notin> set xs \<Longrightarrow> join sep xs = [] \<longleftrightarrow> xs = []"
  by (induction sep xs rule: join.induct) simp_all

lemma locationLabel_Nil_iff:
  "join sep (filterBoolean [Some n, a, c]) = [] \<longleftrightarrow>
     n = [] \<and> a \<in> {None, Some []} \<and> c \<in> {None, Some []}"
proof -
  have "join sep (filterBoolean [Some n, a, c]) = [] \<longleftrightarrow> filterBoolean [Some n, a, c] = []"
    by (rule join_Nil_iff) (rule filterBoolean_nonempty)
  also have "\<dots> \<longleftrightarrow> n = [] \<and> a \<in> {None, Some []} \<and> c \<in> {None, Some []}"
    unfolding filterBoolean_Nil_iff by auto
  finally show ?thesis .
qed

lemma wmoWeatherCodeToText_in_table: "wmoWeatherCodeToText code \<in> set conditionTexts"
  by (simp add: wmoWeatherCodeToText_def conditionTexts_def split: option.splits number.splits)

lemma wmo_None: "wmoWeatherCodeToText None = str ''Unknown conditions''"
  by (simp add: wmoWeatherCodeToText_def)

lemma conditions_currentFields:
  "conditions (currentFields degrees f) =
     Some (wmoWeatherCodeToText (weatherCode (currentFields degrees f)))"
  by (simp add: currentFields_def)

section \<open>The steps of the server's composer\<close>

lemma fetchJsonOrThrow_ok:
  assumes "fetch url = Inr res" "ok res"
  shows "fetchJsonOrThrow fetch url = res_json res"
  using assms by (simp add: fetchJsonOrThrow_def)

lemma fetchJsonOrThrow_not_ok:
  assumes "fetch url = Inr res" "\<not> ok res"
  shows "fetchJsonOrThrow fetch url =
    Inl (Error (str ''Request failed ('' @ natToString (status res) @ str '') for '' @ url @
      str '': '' @ (case res_text res of Inl e \<Rightarrow> [] | Inr t \<Rightarrow> t)))"
  using assms by (simp add: fetchJsonOrThrow_def)


lemma fetchJsonOrThrow_callFails:
  assumes "callFails (fetch url)"
  shows "\<exists>ex. fetchJsonOrThrow fetch url = Inl ex"
  using assms by (auto simp: callFails_def fetchJsonOrThrow_def Let_def split: sum.splits)

lemma fetchJsonOrThrow_Inr_iff:
  "fetchJsonOrThrow fetch url = Inr j \<longleftrightarrow>
     (\<exists>res. fetch url = Inr res \<and> ok res \<and> res_json res = Inr j)"
proof (cases "fetch url")
  case (Inl ex)
  then show ?thesis by (simp add: fetchJsonOrThrow_def)
next
  case (Inr res)
  then show ?thesis by (cases "ok res") (simp_all add: fetchJsonOrThrow_def Let_def)
qed

lemma server_geo_throws:
  assumes "trim city \<noteq> []" "encodeURIComponent e (trim city) = Inr enc"
    and "fetchJsonOrThrow (fetchGeo e) (geoUrlOf enc) = Inl ex"
  shows "getWeatherForCity e city = (Inl ex, [geoUrlOf enc])"
  using assms by (simp add: getWeatherForCity_def Let_def)

lemma server_no_match:
  assumes "trim city \<noteq> []" "encodeURIComponent e (trim city) = Inr enc"
    and "fetchJsonOrThrow (fetchGeo e) (geoUrlOf enc) = Inr geo" "index0 (results geo) = None"
  shows "getWeatherForCity e city = (Inr (Failure (notFoundMessage (trim city))), [geoUrlOf enc])"
  using assms by (simp add: getWeatherForCity_def Let_def)

lemma server_forecast_throws:
  assumes "trim city \<noteq> []" "encodeURIComponent e (trim city) = Inr enc"
    and "fetchJsonOrThrow (fetchGeo e) (geoUrlOf enc) = Inr geo" "index0 (results geo) = Some best"
    and "fetchJsonOrThrow (fetchForecast e) (forecastUrlOf e (geo_latitude best) (geo_longitude best)) = Inl ex"
  shows "getWeatherForCity e city =
    (Inl ex, [geoUrlOf enc, forecastUrlOf e (geo_latitude best) (geo_longitude best)])"
  using assms by (simp add: getWeatherForCity_def Let_def)

lemma server_success_steps:
  assumes "trim city \<noteq> []" "encodeURIComponent e (trim city) = Inr enc"
    and "fetchJsonOrThrow (fetchGeo e) (geoUrlOf enc) = Inr geo"
    and "index0 (results geo) = Some best"
    and "fetchJsonOrThrow (fetchForecast e)
           (forecastUrlOf e (geo_latitude best) (geo_longitude best)) = Inr f"
  shows "getWeatherForCity e city =
    (Inr (Success
       \<lparr>query = trim city, source = str ''Open-Meteo (no API key)'',
        location =
          \<lparr>name = join (str '', '') (filterBoolean [Some (geo_name best), admin1 best, country best]),
           latitude = geo_latitude best, longitude = geo_longitude best,
           timezone = nullishOr (fc_timezone f) (geo_timezone best)\<rparr>,
        current = currentFields [0xC2, 0xB0, 0x43] f,
        today = todayFields f\<rparr>),
     [geoUrlOf enc, forecastUrlOf e (geo_latitude best) (geo_longitude best)])"
  using assms
  by (simp add: getWeatherForCity_def currentFields_def todayFields_def Let_def
      del: filterBoolean.simps)

lemma server_success:
  assumes "trim city \<noteq> []" "encodeURIComponent e (trim city) = Inr enc"
    and "fetchGeo e (geoUrlOf enc) = Inr geoRes" "ok geoRes" "res_json geoRes = Inr geo"
    and "index0 (results geo) = Some best"
    and "fetchForecast e (forecastUrlOf e (geo_latitude best) (geo_longitude best)) = Inr fcRes"
    and "ok fcRes" "res_json fcRes = Inr f"
  shows "getWeatherForCity e city =
    (Inr (Success
       \<lparr>query = trim city, source = str ''Open-Meteo (no API key)'',
        location =
          \<lparr>name = join (str '', '') (filterBoolean [Some (geo_name best), admin1 best, country best]),
           latitude = geo_latitude best, longitude = geo_longitude best,
           timezone = nullishOr (fc_timezone f) (geo_timezone best)\<rparr>,
        current = currentFields [0xC2, 0xB0, 0x43] f,
        today = todayFields f\<rparr>),
     [geoUrlOf enc, forecastUrlOf e (geo_latitude best) (geo_longitude best)])"
proof -
  have g: "fetchJsonOrThrow (fetchGeo e) (geoUrlOf enc) = Inr geo"
    using assms(3-5) by (simp add: fetchJsonOrThrow_ok)
  have h: "fetchJsonOrThrow (fetchForecast e)
      (forecastUrlOf e (geo_latitude best) (geo_longitude best)) = Inr f"
    using assms(7-9) by (simp add: fetchJsonOrThrow_ok)
  show ?thesis using assms(1,2) g assms(6) h by (rule server_success_steps)
qed

lemma get_weather_of_Error:
  assumes "getWeatherForCity e city = (Inl (Error m), calls)"
  shows "get_weather e city =
    (\<lparr>content_text = m, structuredContent = WeatherError city m\<rparr>, calls)"
  using assms by (simp add: get_weather_def)


lemma get_weather_of_Failure:
  assumes "getWeatherForCity e city = (Inr (Failure m), calls)"
  shows "get_weather e city =
    (\<lparr>content_text = m, structuredContent = WeatherError city m\<rparr>, calls)"
  using assms by (simp add: get_weather_def)

lemma get_weather_of_Success:
  assumes "getWeatherForCity e city = (Inr (Success d), calls)"
  shows "get_weather e city =
    (\<lparr>content_text = join [0x0A] (summaryParts e d), structuredContent = Weather d\<rparr>, calls)"
  using assms by (simp add: get_weather_def)

lemma get_weather_Weather_iff:
  "structuredContent (fst (get_weather e city)) = Weather d \<longleftrightarrow>
     fst (getWeatherForCity e city) = Inr (Success d)"
proof (cases "getWeatherForCity e city")
  case (Pair outcome calls)
  show ?thesis
  proof (cases outcome)
    case (Inl ex)
    with Pair show ?thesis by (cases ex) (simp_all add: get_weather_def)
  next
    case (Inr r)
    with Pair show ?thesis by (cases r) (simp_all add: get_weather_def)
  qed
qed

lemma server_geo_status:
  assumes "trim city \<noteq> []" "encodeURIComponent e (trim city) = Inr enc"
    and "fetchGeo e (geoUrlOf enc) = Inr res" "\<not> ok res"
  shows "\<exists>m. errorMessage (structuredContent (fst (get_weather e city))) = Some m \<and>
             sublist (natToString (status res)) m"
proof -
  let ?m = "str ''Request failed ('' @ natToString (status res) @ str '') for '' @ geoUrlOf enc @
      str '': '' @ (case res_text res of Inl e \<Rightarrow> [] | Inr t \<Rightarrow> t)"
  have "fetchJsonOrThrow (fetchGeo e) (geoUrlOf enc) = Inl (Error ?m)"
    using assms(3,4) by (rule fetchJsonOrThrow_not_ok)
  then have "getWeatherForCity e city = (Inl (Error ?m), [geoUrlOf enc])"
    using assms(1,2) by (simp add: server_geo_throws)
  then have "get_weather e city =
      (\<lparr>content_text = ?m, structuredContent = WeatherError city ?m\<rparr>, [geoUrlOf enc])"
    by (rule get_weather_of_Error)
  then have "errorMessage (structuredContent (fst (get_weather e city))) = Some ?m" by simp
  moreover have "sublist (natToString (status res)) ?m" by (rule sublist_appendI)
  ultimately show ?thesis by blast
qed

lemma server_forecast_status:
  assumes "trim city \<noteq> []" "encodeURIComponent e (trim city) = Inr enc"
    and "fetchGeo e (geoUrlOf enc) = Inr geoRes" "ok geoRes" "res_json geoRes = Inr geo"
    and "index0 (results geo) = Some best"
    and "fetchForecast e (forecastUrlOf e (geo_latitude best) (geo_longitude best)) = Inr res"
    and "\<not> ok res"
  shows "\<exists>m. errorMessage (structuredContent (fst (get_weather e city))) = Some m \<and>
             sublist (natToString (status res)) m"
proof -
  let ?u = "forecastUrlOf e (geo_latitude best) (geo_longitude best)"
  let ?m = "str ''Request failed ('' @ natToString (status res) @ str '') for '' @ ?u @
      str '': '' @ (case res_text res of Inl e \<Rightarrow> [] | Inr t \<Rightarrow> t)"
  have j: "fetchJsonOrThrow (fetchGeo e) (geoUrlOf enc) = Inr geo"
    using assms(3-5) by (simp add: fetchJsonOrThrow_ok)
  have "fetchJsonOrThrow (fetchForecast e) ?u = Inl (Error ?m)"
    using assms(7,8) by (rule fetchJsonOrThrow_not_ok)
  then have "getWeatherForCity e city = (Inl (Error ?m), [geoUrlOf enc, ?u])"
    using server_forecast_throws [OF assms(1,2) j assms(6)] by simp
  then have "get_weather e city =
      (\<lparr>content_text = ?m, structuredContent = WeatherError city ?m\<rparr>, [geoUrlOf enc, ?u])"
    by (rule get_weather_of_Error)
  then have "errorMessage (structuredContent (fst (get_weather e city))) = Some ?m" by simp
  moreover have "sublist (natToString (status res)) ?m" by (rule sublist_appendI)
  ultimately show ?thesis by blast
qed

lemma server_success_cases:
  assumes a: "fst (getWeatherForCity e city) = Inr (Success d)"
  shows "\<exists>enc geoRes geo best fcRes f.
      trim city \<noteq> [] \<and> encodeURIComponent e (trim city) = Inr enc \<and>
      fetchGeo e (geoUrlOf enc) = Inr geoRes \<and> ok geoRes \<and> res_json geoRes = Inr geo \<and>
      index0 (results geo) = Some best \<and>
      fetchForecast e (forecastUrlOf e (geo_latitude best) (geo_longitude best)) = Inr fcRes \<and>
      ok fcRes \<and> res_json fcRes = Inr f \<and>
      query d = trim city \<and> source d = str ''Open-Meteo (no API key)'' \<and>
      name (location d) =
        join (str '', '') (filterBoolean [Some (geo_name best), admin1 best, country best]) \<and>
      latitude (location d) = geo_latitude best \<and> longitude (location d) = geo_longitude best \<and>
      timezone (location d) = nullishOr (fc_timezone f) (geo_timezone best) \<and>
      current d = currentFields [0xC2, 0xB0, 0x43] f \<and> today d = todayFields f"
proof -
  have ne: "trim city \<noteq> []"
  proof
    assume "trim city = []"
    then have "fst (getWeatherForCity e city) = Inl (Error (str ''City is required.''))"
      by (simp add: getWeatherForCity_def)
    with a show False by simp
  qed
  obtain enc where enc: "encodeURIComponent e (trim city) = Inr enc"
  proof (cases "encodeURIComponent e (trim city)")
    case (Inl ex)
    with ne have "fst (getWeatherForCity e city) = Inl ex"
      by (simp add: getWeatherForCity_def)
    with a show ?thesis by simp
  next
    case (Inr x)
    then show ?thesis by (rule that)
  qed
  obtain geo where geo: "fetchJsonOrThrow (fetchGeo e) (geoUrlOf enc) = Inr geo"
  proof (cases "fetchJsonOrThrow (fetchGeo e) (geoUrlOf enc)")
    case (Inl ex)
    from server_geo_throws [OF ne enc Inl] a show ?thesis by simp
  next
    case (Inr x)
    then show ?thesis by (rule that)
  qed
  obtain best where best: "index0 (results geo) = Some best"
  proof (cases "index0 (results geo)")
    case None
    from server_no_match [OF ne enc geo None] a show ?thesis by simp
  next
    case (Some x)
    then show ?thesis by (rule that)
  qed
  obtain f where f: "fetchJsonOrThrow (fetchForecast e)
      (forecastUrlOf e (geo_latitude best) (geo_longitude best)) = Inr f"
  proof (cases "fetchJsonOrThrow (fetchForecast e)
      (forecastUrlOf e (geo_latitude best) (geo_longitude best))")
    case (Inl ex)
    from server_forecast_throws [OF ne enc geo best Inl] a show ?thesis by simp
  next
    case (Inr x)
    then show ?thesis by (rule that)
  qed
  from geo obtain geoRes where g: "fetchGeo e (geoUrlOf enc) = Inr geoRes" "ok geoRes"
      "res_json geoRes = Inr geo"
    unfolding fetchJsonOrThrow_Inr_iff by blast
  from f obtain fcRes where
    h: "fetchForecast e (forecastUrlOf e (geo_latitude best) (geo_longitude best)) = Inr fcRes"
      "ok fcRes" "res_json fcRes = Inr f"
    unfolding fetchJsonOrThrow_Inr_iff by blast
  from server_success_steps [OF ne enc geo best f] a
  have deq: "d = \<lparr>query = trim city, source = str ''Open-Meteo (no API key)'',
        location =
          \<lparr>name = join (str '', '') (filterBoolean [Some (geo_name best), admin1 best, country best]),
           latitude = geo_latitude best, longitude = geo_longitude best,
           timezone = nullishOr (fc_timezone f) (geo_timezone best)\<rparr>,
        current = currentFields [0xC2, 0xB0, 0x43] f,
        today = todayFields f\<rparr>" by simp
  have d: "query d = trim city \<and> source d = str ''Open-Meteo (no API key)'' \<and>
    name (location d) =
      join (str '', '') (filterBoolean [Some (geo_name best), admin1 best, country best]) \<and>
    latitude (location d) = geo_latitude best \<and> longitude (location d) = geo_longitude best \<and>
    timezone (location d) = nullishOr (fc_timezone f) (geo_timezone best) \<and>
    current d = currentFields [0xC2, 0xB0, 0x43] f \<and> today d = todayFields f"
    unfolding deq by simp
  from ne enc g best h d show ?thesis by blast
qed

section \<open>The steps of the page's composer\<close>

lemma page_is_error_of_callFails_geo:
  assumes "trim city \<noteq> []" "encodeURIComponent e (trim city) = Inr enc"
    and "callFails (fetchGeo e (geoUrlOf enc))"
  shows "\<exists>msg. fetchWeatherOpenMeteo e city = (WeatherError (trim city) msg, [geoUrlOf enc])"
  using assms
  by (auto simp: fetchWeatherOpenMeteo_def callFails_def caught_def Let_def split: sum.splits)

lemma page_no_match:
  assumes "trim city \<noteq> []" "encodeURIComponent e (trim city) = Inr enc"
    and "fetchGeo e (geoUrlOf enc) = Inr geoRes" "ok geoRes" "res_json geoRes = Inr geo"
    and "index0 (results geo) = None"
  shows "fetchWeatherOpenMeteo e city =
    (WeatherError (trim city) (notFoundMessage (trim city)), [geoUrlOf enc])"
  using assms by (simp add: fetchWeatherOpenMeteo_def Let_def)





lemma page_is_error_of_callFails_forecast:
  assumes "trim city \<noteq> []" "encodeURIComponent e (trim city) = Inr enc"
    and "fetchGeo e (geoUrlOf enc) = Inr geoRes" "ok geoRes" "res_json geoRes = Inr geo"
    and "index0 (results geo) = Some best"
    and "callFails (fetchForecast e (forecastUrlOf e (geo_latitude best) (geo_longitude best)))"
  shows "\<exists>msg. fetchWeatherOpenMeteo e city =
    (WeatherError (trim city) msg,
     [geoUrlOf enc, forecastUrlOf e (geo_latitude best) (geo_longitude best)])"
  using assms
  by (auto simp: fetchWeatherOpenMeteo_def callFails_def caught_def Let_def split: sum.splits)

lemma page_geo_status:
  assumes "trim city \<noteq> []" "encodeURIComponent e (trim city) = Inr enc"
    and "fetchGeo e (geoUrlOf enc) = Inr res" "\<not> ok res"
  shows "\<exists>m. errorMessage (fst (fetchWeatherOpenMeteo e city)) = Some m \<and>
             sublist (natToString (status res)) m"
proof -
  have "fetchWeatherOpenMeteo e city =
      (WeatherError (trim city)
         (str ''Geocoding failed ('' @ natToString (status res) @ str '').''), [geoUrlOf enc])"
    using assms by (simp add: fetchWeatherOpenMeteo_def Let_def)
  moreover have "sublist (natToString (status res))
      (str ''Geocoding failed ('' @ natToString (status res) @ str '').'')"
    by (rule sublist_appendI)
  ultimately show ?thesis by simp
qed

lemma page_forecast_status:
  assumes "trim city \<noteq> []" "encodeURIComponent e (trim city) = Inr enc"
    and "fetchGeo e (geoUrlOf enc) = Inr geoRes" "ok geoRes" "res_json geoRes = Inr geo"
    and "index0 (results geo) = Some best"
    and "fetchForecast e (forecastUrlOf e (geo_latitude best) (geo_longitude best)) = Inr res"
    and "\<not> ok res"
  shows "\<exists>m. errorMessage (fst (fetchWeatherOpenMeteo e city)) = Some m \<and>
             sublist (natToString (status res)) m"
proof -
  have "fetchWeatherOpenMeteo e city =
      (WeatherError (trim city)
         (str ''Forecast failed ('' @ natToString (status res) @ str '').''),
       [geoUrlOf enc, forecastUrlOf e (geo_latitude best) (geo_longitude best)])"
    using assms by (simp add: fetchWeatherOpenMeteo_def Let_def)
  moreover have "sublist (natToString (status res))
      (str ''Forecast failed ('' @ natToString (status res) @ str '').'')"
    by (rule sublist_appendI)
  ultimately show ?thesis by simp
qed

lemma page_success:
  assumes "trim city \<noteq> []" "encodeURIComponent e (trim city) = Inr enc"
    and "fetchGeo e (geoUrlOf enc) = Inr geoRes" "ok geoRes" "res_json geoRes = Inr geo"
    and "index0 (results geo) = Some best"
    and "fetchForecast e (forecastUrlOf e (geo_latitude best) (geo_longitude best)) = Inr fcRes"
    and "ok fcRes" "res_json fcRes = Inr f"
  shows "fetchWeatherOpenMeteo e city =
    (Weather
       \<lparr>query = trim city, source = str ''Open-Meteo (no API key)'',
        location =
          \<lparr>name = join (str '', '') (filterBoolean [Some (geo_name best), admin1 best, country best]),
           latitude = geo_latitude best, longitude = geo_longitude best,
           timezone = nullishOr (fc_timezone f) (geo_timezone best)\<rparr>,
        current = currentFields [0xB0, 0x43] f,
        today = todayFields f\<rparr>,
     [geoUrlOf enc, forecastUrlOf e (geo_latitude best) (geo_longitude best)])"
  using assms
  by (simp add: fetchWeatherOpenMeteo_def currentFields_def todayFields_def Let_def
      del: filterBoolean.simps)

lemma page_success_cases:
  assumes a: "fst (fetchWeatherOpenMeteo e city) = Weather d"
  shows "\<exists>enc geoRes geo best fcRes f.
      trim city \<noteq> [] \<and> encodeURIComponent e (trim city) = Inr enc \<and>
      fetchGeo e (geoUrlOf enc) = Inr geoRes \<and> ok geoRes \<and> res_json geoRes = Inr geo \<and>
      index0 (results geo) = Some best \<and>
      fetchForecast e (forecastUrlOf e (geo_latitude best) (geo_longitude best)) = Inr fcRes \<and>
      ok fcRes \<and> res_json fcRes = Inr f \<and>
      query d = trim city \<and> source d = str ''Open-Meteo (no API key)'' \<and>
      name (location d) =
        join (str '', '') (filterBoolean [Some (geo_name best), admin1 best, country best]) \<and>
      latitude (location d) = geo_latitude best \<and> longitude (location d) = geo_longitude best \<and>
      timezone (location d) = nullishOr (fc_timezone f) (geo_timezone best) \<and>
      current d = currentFields [0xB0, 0x43] f \<and> today d = todayFields f"
proof -
  have ne: "trim city \<noteq> []"
  proof
    assume "trim city = []"
    then have "fst (fetchWeatherOpenMeteo e city) = WeatherError city (str ''City is required.'')"
      by (simp add: fetchWeatherOpenMeteo_def)
    with a show False by simp
  qed
  obtain enc where enc: "encodeURIComponent e (trim city) = Inr enc"
  proof (cases "encodeURIComponent e (trim city)")
    case (Inl ex)
    with ne have "fst (fetchWeatherOpenMeteo e city) = caught (trim city) ex"
      by (simp add: fetchWeatherOpenMeteo_def)
    with a show ?thesis by (simp add: caught_def)
  next
    case (Inr x)
    then show ?thesis by (rule that)
  qed
  obtain geoRes where g1: "fetchGeo e (geoUrlOf enc) = Inr geoRes" and g2: "ok geoRes"
  proof (cases "callFails (fetchGeo e (geoUrlOf enc))")
    case True
    from page_is_error_of_callFails_geo [OF ne enc True] a show ?thesis by auto
  next
    case False
    then show ?thesis by (auto simp: callFails_def split: sum.splits intro: that)
  qed
  obtain geo where g3: "res_json geoRes = Inr geo"
  proof (cases "res_json geoRes")
    case (Inl ex)
    with ne enc g1 g2 have "fst (fetchWeatherOpenMeteo e city) = caught (trim city) ex"
      by (simp add: fetchWeatherOpenMeteo_def Let_def)
    with a show ?thesis by (simp add: caught_def)
  next
    case (Inr x)
    then show ?thesis by (rule that)
  qed
  obtain best where best: "index0 (results geo) = Some best"
  proof (cases "index0 (results geo)")
    case None
    from page_no_match [OF ne enc g1 g2 g3 None] a show ?thesis by simp
  next
    case (Some x)
    then show ?thesis by (rule that)
  qed
  obtain fcRes where
    h1: "fetchForecast e (forecastUrlOf e (geo_latitude best) (geo_longitude best)) = Inr fcRes"
    and h2: "ok fcRes"
  proof (cases "callFails (fetchForecast e
      (forecastUrlOf e (geo_latitude best) (geo_longitude best)))")
    case True
    from page_is_error_of_callFails_forecast [OF ne enc g1 g2 g3 best True] a
    show ?thesis by auto
  next
    case False
    then show ?thesis by (auto simp: callFails_def split: sum.splits intro: that)
  qed
  obtain f where h3: "res_json fcRes = Inr f"
  proof (cases "res_json fcRes")
    case (Inl ex)
    with ne enc g1 g2 g3 best h1 h2
    have "fst (fetchWeatherOpenMeteo e city) = caught (trim city) ex"
      by (simp add: fetchWeatherOpenMeteo_def Let_def)
    with a show ?thesis by (simp add: caught_def)
  next
    case (Inr x)
    then show ?thesis by (rule that)
  qed
  from page_success [OF ne enc g1 g2 g3 best h1 h2 h3] a
  have deq: "d = \<lparr>query = trim city, source = str ''Open-Meteo (no API key)'',
        location =
          \<lparr>name = join (str '', '') (filterBoolean [Some (geo_name best), admin1 best, country best]),
           latitude = geo_latitude best, longitude = geo_longitude best,
           timezone = nullishOr (fc_timezone f) (geo_timezone best)\<rparr>,
        current = currentFields [0xB0, 0x43] f,
        today = todayFields f\<rparr>" by simp
  have d: "query d = trim city \<and> source d = str ''Open-Meteo (no API key)'' \<and>
    name (location d) =
      join (str '', '') (filterBoolean [Some (geo_name best), admin1 best, country best]) \<and>
    latitude (location d) = geo_latitude best \<and> longitude (location d) = geo_longitude best \<and>
    timezone (location d) = nullishOr (fc_timezone f) (geo_timezone best) \<and>
    current d = currentFields [0xB0, 0x43] f \<and> today d = todayFields f"
    unfolding deq by simp
  from ne enc g1 g2 g3 best h1 h2 h3 d show ?thesis by blast
qed

section \<open>The composers on the sample worlds\<close>

lemma status_errorResponse: "status (errorResponse n) = n"
  by (simp add: errorResponse_def)






lemma paris_label:
  "join (str '', '') (filterBoolean [Some (geo_name paris), admin1 paris, country paris]) =
     str ''Paris, Ile-de-France, France''"
  by (simp add: paris_def str_def)

lemma nameless_label:
  "join (str '', '') (filterBoolean [Some (geo_name nameless), admin1 nameless, country nameless]) = []"
  by (simp add: nameless_def)

lemma currentFields_empty:
  "currentFields degrees emptyForecast =
     \<lparr>time = None, temperature = None, temperatureUnit = Some degrees, windSpeed = None,
      windSpeedUnit = Some (str ''km/h''), weatherCode = None,
      conditions = Some (str ''Unknown conditions'')\<rparr>"
  by (simp add: currentFields_def emptyForecast_def wmoWeatherCodeToText_def)

lemma todayFields_empty:
  "todayFields emptyForecast =
     \<lparr>date = None, high = None, low = None, precipitationChance = None,
      precipitationChanceUnit = Some (str ''%'')\<rparr>"
  by (simp add: todayFields_def emptyForecast_def)

lemma paris_server:
  "getWeatherForCity (world (found paris) (Inr (okResponse emptyForecast))) (str ''Paris'') =
     (Inr (Success (parisWeather [0xC2, 0xB0, 0x43])),
      [geoUrlOf (str ''Paris''),
       forecastUrlOf (world (found paris) (Inr (okResponse emptyForecast))) (Finite 48) (Finite 2)])"
proof -
  let ?w = "world (found paris) (Inr (okResponse emptyForecast))"
  have "getWeatherForCity ?w (str ''Paris'') =
    (Inr (Success
       \<lparr>query = trim (str ''Paris''), source = str ''Open-Meteo (no API key)'',
        location =
          \<lparr>name = join (str '', '') (filterBoolean [Some (geo_name paris), admin1 paris, country paris]),
           latitude = geo_latitude paris, longitude = geo_longitude paris,
           timezone = nullishOr (fc_timezone emptyForecast) (geo_timezone paris)\<rparr>,
        current = currentFields [0xC2, 0xB0, 0x43] emptyForecast,
        today = todayFields emptyForecast\<rparr>),
     [geoUrlOf (str ''Paris''), forecastUrlOf ?w (geo_latitude paris) (geo_longitude paris)])"
    by (rule server_success [where geoRes = "okResponse \<lparr>results = Some [paris]\<rparr>"
          and geo = "\<lparr>results = Some [paris]\<rparr>" and fcRes = "okResponse emptyForecast"])
       (simp_all add: trim_Paris str_Paris_nonempty world_def found_def okResponse_def)
  then show ?thesis
    unfolding paris_label currentFields_empty todayFields_empty trim_Paris parisWeather_def
    by (simp add: paris_def emptyForecast_def)
qed

lemma paris_page:
  "fetchWeatherOpenMeteo (world (found paris) (Inr (okResponse emptyForecast))) (str ''Paris'') =
     (Weather (parisWeather [0xB0, 0x43]),
      [geoUrlOf (str ''Paris''),
       forecastUrlOf (world (found paris) (Inr (okResponse emptyForecast))) (Finite 48) (Finite 2)])"
proof -
  let ?w = "world (found paris) (Inr (okResponse emptyForecast))"
  have "fetchWeatherOpenMeteo ?w (str ''Paris'') =
    (Weather
       \<lparr>query = trim (str ''Paris''), source = str ''Open-Meteo (no API key)'',
        location =
          \<lparr>name = join (str '', '') (filterBoolean [Some (geo_name paris), admin1 paris, country paris]),
           latitude = geo_latitude paris, longitude = geo_longitude paris,
           timezone = nullishOr (fc_timezone emptyForecast) (geo_timezone paris)\<rparr>,
        current = currentFields [0xB0, 0x43] emptyForecast,
        today = todayFields emptyForecast\<rparr>,
     [geoUrlOf (str ''Paris''), forecastUrlOf ?w (geo_latitude paris) (geo_longitude paris)])"
    by (rule page_success [where geoRes = "okResponse \<lparr>results = Some [paris]\<rparr>"
          and geo = "\<lparr>results = Some [paris]\<rparr>" and fcRes = "okResponse emptyForecast"])
       (simp_all add: trim_Paris str_Paris_nonempty world_def found_def okResponse_def)
  then show ?thesis
    unfolding paris_label currentFields_empty todayFields_empty trim_Paris parisWeather_def
    by (simp add: paris_def emptyForecast_def)
qed

lemma paris_tool:
  "get_weather (world (found paris) (Inr (okResponse emptyForecast))) (str ''Paris'') =
     (\<lparr>content_text = str ''Weather for Paris, Ile-de-France, France'',
       structuredContent = Weather (parisWeather [0xC2, 0xB0, 0x43])\<rparr>,
      [geoUrlOf (str ''Paris''),
       forecastUrlOf (world (found paris) (Inr (okResponse emptyForecast))) (Finite 48) (Finite 2)])"
  unfolding get_weather_of_Success [OF paris_server]
  by (simp add: summaryParts_def parisWeather_def str_def)

section \<open>The forecast adapter and the composers\<close>

text \<open>
  The adapter reads the response as the composers do. For every \<open>weather\<close> result of
  the page, the adapter run on the result's coordinates gives every field the result
  holds; for the server it gives every field but the temperature unit.
\<close>

lemma currentNow_bind: "currentNow f field = Option.bind (fc_current f) field"
  by (cases "fc_current f") (simp_all add: currentNow_def)

lemma seriesToday_index0: "seriesToday f series = index0 (Option.bind (daily f) series)"
proof (cases "daily f")
  case None
  then show ?thesis by (simp add: seriesToday_def)
next
  case (Some d)
  then show ?thesis
    by (cases "series d" rule: index0.cases) (simp_all add: seriesToday_def)
qed

lemma unitOr_nullish:
  "unitOr f field fallback = nullish (Option.bind (current_units f) field) fallback"
proof (cases "current_units f")
  case None
  then show ?thesis by (simp add: unitOr_def)
next
  case (Some u)
  then show ?thesis by (cases "field u") (simp_all add: unitOr_def)
qed

lemma forecastAdapter_fields:
  assumes "fetchForecast e (forecastUrlOf e lat lon) = Inr res" "ok res" "res_json res = Inr f"
  shows "forecastAdapter e lat lon =
    Some
      \<lparr>ff_time = currentNow f cur_time,
       ff_temperature = currentNow f temperature_2m,
       ff_temperatureUnit = unitOr f unit_temperature_2m [0xB0, 0x43],
       ff_windSpeed = currentNow f wind_speed_10m,
       ff_windSpeedUnit = unitOr f unit_wind_speed_10m (str ''km/h''),
       ff_weatherCode = currentNow f weather_code,
       ff_date = seriesToday f daily_time,
       ff_high = seriesToday f temperature_2m_max,
       ff_low = seriesToday f temperature_2m_min,
       ff_precipitationChance = seriesToday f precipitation_probability_max\<rparr>"
  using assms by (simp add: forecastAdapter_def)

lemma page_round_trip:
  assumes "fst (fetchWeatherOpenMeteo e city) = Weather d"
  shows "\<exists>r. forecastAdapter e (latitude (location d)) (longitude (location d)) = Some r \<and>
    time (current d) = ff_time r \<and>
    temperature (current d) = ff_temperature r \<and>
    temperatureUnit (current d) = Some (ff_temperatureUnit r) \<and>
    windSpeed (current d) = ff_windSpeed r \<and>
    windSpeedUnit (current d) = Some (ff_windSpeedUnit r) \<and>
    weatherCode (current d) = ff_weatherCode r \<and>
    conditions (current d) = Some (wmoWeatherCodeToText (ff_weatherCode r)) \<and>
    date (today d) = ff_date r \<and> high (today d) = ff_high r \<and> low (today d) = ff_low r \<and>
    precipitationChance (today d) = ff_precipitationChance r"
proof -
  from page_success_cases [OF assms] obtain best :: GeoResult and fcRes f where
    h: "fetchForecast e (forecastUrlOf e (geo_latitude best) (geo_longitude best)) = Inr fcRes"
      "ok fcRes" "res_json fcRes = Inr f"
    and l: "latitude (location d) = geo_latitude best" "longitude (location d) = geo_longitude best"
    and c: "current d = currentFields [0xB0, 0x43] f" and t: "today d = todayFields f"
    by blast
  show ?thesis
    unfolding l c t forecastAdapter_fields [OF h]
    by (simp add: currentFields_def todayFields_def currentNow_bind seriesToday_index0
        unitOr_nullish)
qed

lemma server_round_trip_but_temperatureUnit:
  assumes "structuredContent (fst (get_weather e city)) = Weather d"
  shows "\<exists>r. forecastAdapter e (latitude (location d)) (longitude (location d)) = Some r \<and>
    time (current d) = ff_time r \<and>
    temperature (current d) = ff_temperature r \<and>
    windSpeed (current d) = ff_windSpeed r \<and>
    windSpeedUnit (current d) = Some (ff_windSpeedUnit r) \<and>
    weatherCode (current d) = ff_weatherCode r \<and>
    conditions (current d) = Some (wmoWeatherCodeToText (ff_weatherCode r)) \<and>
    date (today d) = ff_date r \<and> high (today d) = ff_high r \<and> low (today d) = ff_low r \<and>
    precipitationChance (today d) = ff_precipitationChance r"
proof -
  from assms have "fst (getWeatherForCity e city) = Inr (Success d)"
    by (simp add: get_weather_Weather_iff)
  from server_success_cases [OF this] obtain best :: GeoResult and fcRes f where
    h: "fetchForecast e (forecastUrlOf e (geo_latitude best) (geo_longitude best)) = Inr fcRes"
      "ok fcRes" "res_json fcRes = Inr f"
    and l: "latitude (location d) = geo_latitude best" "longitude (location d) = geo_longitude best"
    and c: "current d = currentFields [0xC2, 0xB0, 0x43] f" and t: "today d = todayFields f"
    by blast
  show ?thesis
    unfolding l c t forecastAdapter_fields [OF h]
    by (simp add: currentFields_def todayFields_def currentNow_bind seriesToday_index0
        unitOr_nullish)
qed


section \<open>The weather-code translator is a total table\<close>

text \<open>
  Claim C1. On every integer weather code the translator returns the string of the
  table: 0 is clear sky, 1 to 3 partly cloudy, 45 and 48 fog, 51, 53 and 55 drizzle,
  56 and 57 freezing drizzle, 61, 63 and 65 rain, 66 and 67 freezing rain, 71, 73 and 75
  snow, 77 snow grains, 80 to 82 rain showers, 85 and 86 snow showers, 95 thunderstorm,
  96 and 99 thunderstorm with hail, and every other integer gives "Unknown conditions".
  The translator is a function of its argument alone and has a value everywhere.
\<close>

theorem wmoWeatherCodeToText_table:
  fixes i :: int
  shows
  "(i = 0 \<longrightarrow> wmoWeatherCodeToText (Some (Finite (of_int i))) = str ''Clear sky'') \<and>
   (1 \<le> i \<and> i \<le> 3 \<longrightarrow> wmoWeatherCodeToText (Some (Finite (of_int i))) = str ''Partly cloudy'') \<and>
   (i \<in> {45, 48} \<longrightarrow> wmoWeatherCodeToText (Some (Finite (of_int i))) = str ''Fog'') \<and>
   (i \<in> {51, 53, 55} \<longrightarrow> wmoWeatherCodeToText (Some (Finite (of_int i))) = str ''Drizzle'') \<and>
   (i \<in> {56, 57} \<longrightarrow>
      wmoWeatherCodeToText (Some (Finite (of_int i))) = str ''Freezing drizzle'') \<and>
   (i \<in> {61, 63, 65} \<longrightarrow> wmoWeatherCodeToText (Some (Finite (of_int i))) = str ''Rain'') \<and>
   (i \<in> {66, 67} \<longrightarrow> wmoWeatherCodeToText (Some (Finite (of_int i))) = str ''Freezing rain'') \<and>
   (i \<in> {71, 73, 75} \<longrightarrow> wmoWeatherCodeToText (Some (Finite (of_int i))) = str ''Snow'') \<and>
   (i = 77 \<longrightarrow> wmoWeatherCodeToText (Some (Finite (of_int i))) = str ''Snow grains'') \<and>
   (80 \<le> i \<and> i \<le> 82 \<longrightarrow>
      wmoWeatherCodeToText (Some (Finite (of_int i))) = str ''Rain showers'') \<and>
   (i \<in> {85, 86} \<longrightarrow> wmoWeatherCodeToText (Some (Finite (of_int i))) = str ''Snow showers'') \<and>
   (i = 95 \<longrightarrow> wmoWeatherCodeToText (Some (Finite (of_int i))) = str ''Thunderstorm'') \<and>
   (i \<in> {96, 99} \<longrightarrow>
      wmoWeatherCodeToText (Some (Finite (of_int i))) = str ''Thunderstorm with hail'') \<and>
   (i \<notin> {0, 1, 2, 3, 45, 48, 51, 53, 55, 56, 57, 61, 63, 65, 66, 67, 71, 73, 75, 77, 80, 81, 82,
          85, 86, 95, 96, 99} \<longrightarrow>
      wmoWeatherCodeToText (Some (Finite (of_int i))) = str ''Unknown conditions'')"
proof -
  have r13: "1 \<le> i \<and> i \<le> 3 \<longleftrightarrow> i = 1 \<or> i = 2 \<or> i = 3" by arith
  have r80: "80 \<le> i \<and> i \<le> 82 \<longleftrightarrow> i = 80 \<or> i = 81 \<or> i = 82" by arith
  show ?thesis
    unfolding r13 r80 by (auto simp add: wmoWeatherCodeToText_def)
qed

theorem wmoWeatherCodeToText_table_witness:
  "wmoWeatherCodeToText (Some (Finite (of_int 0))) = str ''Clear sky'' \<and>
   wmoWeatherCodeToText (Some (Finite (of_int 2))) = str ''Partly cloudy'' \<and>
   wmoWeatherCodeToText (Some (Finite (of_int 48))) = str ''Fog'' \<and>
   wmoWeatherCodeToText (Some (Finite (of_int 53))) = str ''Drizzle'' \<and>
   wmoWeatherCodeToText (Some (Finite (of_int 57))) = str ''Freezing drizzle'' \<and>
   wmoWeatherCodeToText (Some (Finite (of_int 65))) = str ''Rain'' \<and>
   wmoWeatherCodeToText (Some (Finite (of_int 66))) = str ''Freezing rain'' \<and>
   wmoWeatherCodeToText (Some (Finite (of_int 73))) = str ''Snow'' \<and>
   wmoWeatherCodeToText (Some (Finite (of_int 77))) = str ''Snow grains'' \<and>
   wmoWeatherCodeToText (Some (Finite (of_int 81))) = str ''Rain showers'' \<and>
   wmoWeatherCodeToText (Some (Finite (of_int 86))) = str ''Snow showers'' \<and>
   wmoWeatherCodeToText (Some (Finite (of_int 95))) = str ''Thunderstorm'' \<and>
   wmoWeatherCodeToText (Some (Finite (of_int 99))) = str ''Thunderstorm with hail'' \<and>
   wmoWeatherCodeToText (Some (Finite (of_int 4))) = str ''Unknown conditions'' \<and>
   wmoWeatherCodeToText (Some (Finite (of_int (- 1)))) = str ''Unknown conditions''"
  using wmoWeatherCodeToText_table [of 0] wmoWeatherCodeToText_table [of 2]
    wmoWeatherCodeToText_table [of 48] wmoWeatherCodeToText_table [of 53]
    wmoWeatherCodeToText_table [of 57] wmoWeatherCodeToText_table [of 65]
    wmoWeatherCodeToText_table [of 66] wmoWeatherCodeToText_table [of 73]
    wmoWeatherCodeToText_table [of 77] wmoWeatherCodeToText_table [of 81]
    wmoWeatherCodeToText_table [of 86] wmoWeatherCodeToText_table [of 95]
    wmoWeatherCodeToText_table [of 99] wmoWeatherCodeToText_table [of 4]
    wmoWeatherCodeToText_table [of "- 1"]
  by simp

section \<open>Unit defaults\<close>

text \<open>
  Claim C2. When the forecast response carries no unit metadata, \<open>temperatureUnit\<close> is
  to default to the degree sign followed by \<open>C\<close> and \<open>windSpeedUnit\<close> to \<open>km/h\<close>. On the
  Paris sample, whose forecast response is empty, the page gives these two defaults. The
  server gives \<open>km/h\<close>, but its temperature unit is the three code units U+00C2, U+00B0
  and \<open>C\<close>: not the two of the degree sign and \<open>C\<close>.
\<close>

theorem server_default_temperatureUnit_is_not_degrees_C:
  "map_option (temperatureUnit \<circ> current)
     (weatherOf (structuredContent (fst (get_weather
        (world (found paris) (Inr (okResponse emptyForecast))) (str ''Paris''))))) =
     Some (Some [0xC2, 0xB0, 0x43]) \<and>
   map_option (windSpeedUnit \<circ> current)
     (weatherOf (structuredContent (fst (get_weather
        (world (found paris) (Inr (okResponse emptyForecast))) (str ''Paris''))))) =
     Some (Some (str ''km/h'')) \<and>
   map_option (temperatureUnit \<circ> current)
     (weatherOf (fst (fetchWeatherOpenMeteo
        (world (found paris) (Inr (okResponse emptyForecast))) (str ''Paris'')))) =
     Some (Some [0xB0, 0x43]) \<and>
   [0xC2, 0xB0, 0x43] \<noteq> ([0xB0, 0x43] :: jsstring)"
  by (simp add: paris_tool paris_page parisWeather_def)

section \<open>An empty city\<close>

text \<open>
  Claim C3. For a city that is empty or holds only whitespace, both composers give a
  \<open>weather_error\<close> whose message is "City is required.", and they fetch nothing: the
  list of requested URLs is empty.
\<close>

theorem empty_city_is_rejected_without_calls:
  assumes "\<forall>c\<in>set city. isWhiteSpace c"
  shows "get_weather e city =
           (\<lparr>content_text = str ''City is required.'',
             structuredContent = WeatherError city (str ''City is required.'')\<rparr>, []) \<and>
         fetchWeatherOpenMeteo e city = (WeatherError city (str ''City is required.''), [])"
proof -
  from assms have t: "trim city = []" by (simp add: trim_eq_Nil_iff)
  then show ?thesis
    by (simp add: get_weather_def getWeatherForCity_def fetchWeatherOpenMeteo_def)
qed

theorem empty_city_is_rejected_without_calls_witness:
  "isWhiteSpace 0x20 \<and> isWhiteSpace 0x09 \<and> isWhiteSpace 0xA0 \<and>
   get_weather (world (found paris) (Inr (okResponse emptyForecast))) [0x20, 0x09, 0xA0] =
     (\<lparr>content_text = str ''City is required.'',
       structuredContent = WeatherError [0x20, 0x09, 0xA0] (str ''City is required.'')\<rparr>, []) \<and>
   fetchWeatherOpenMeteo (world (found paris) (Inr (okResponse emptyForecast))) [0x20, 0x09, 0xA0] =
     (WeatherError [0x20, 0x09, 0xA0] (str ''City is required.''), [])"
proof -
  have h: "\<forall>c\<in>set [0x20, 0x09, 0xA0]. isWhiteSpace c" by (simp add: isWhiteSpace_def)
  show ?thesis
    using h empty_city_is_rejected_without_calls [OF h,
        of "world (found paris) (Inr (okResponse emptyForecast))"]
    by simp
qed

section \<open>No geocoding match\<close>

text \<open>
  Claim C4, amended. For a city that is not empty after trimming and whose geocoding
  response holds no match (\<open>results\<close> absent or empty), both composers give a
  \<open>weather_error\<close> whose message holds the trimmed city, and the only request made is
  the geocoding one: the forecast is never asked for.
\<close>

theorem no_match_mentions_trimmed_query:
  assumes "trim city \<noteq> []" "encodeURIComponent e (trim city) = Inr enc"
    and "fetchGeo e (geoUrlOf enc) = Inr geoRes" "ok geoRes" "res_json geoRes = Inr geo"
    and "results geo = None \<or> results geo = Some []"
  shows "get_weather e city =
           (\<lparr>content_text = notFoundMessage (trim city),
             structuredContent = WeatherError city (notFoundMessage (trim city))\<rparr>,
            [geoUrlOf enc]) \<and>
         fetchWeatherOpenMeteo e city =
           (WeatherError (trim city) (notFoundMessage (trim city)), [geoUrlOf enc]) \<and>
         sublist (trim city) (notFoundMessage (trim city))"
proof -
  from assms(6) have none: "index0 (results geo) = None" by (simp add: index0_None_iff)
  have j: "fetchJsonOrThrow (fetchGeo e) (geoUrlOf enc) = Inr geo"
    using assms(3-5) by (simp add: fetchJsonOrThrow_ok)
  have "getWeatherForCity e city = (Inr (Failure (notFoundMessage (trim city))), [geoUrlOf enc])"
    using assms(1,2) j none by (rule server_no_match)
  then have s: "get_weather e city =
           (\<lparr>content_text = notFoundMessage (trim city),
             structuredContent = WeatherError city (notFoundMessage (trim city))\<rparr>,
            [geoUrlOf enc])" by (rule get_weather_of_Failure)
  have p: "fetchWeatherOpenMeteo e city =
           (WeatherError (trim city) (notFoundMessage (trim city)), [geoUrlOf enc])"
    using assms(1-5) none by (rule page_no_match)
  have m: "sublist (trim city) (notFoundMessage (trim city))"
    unfolding notFoundMessage_def by (rule sublist_appendI)
  from s p m show ?thesis by simp
qed

theorem no_match_mentions_trimmed_query_witness:
  "trim (str '' Paris'') \<noteq> [] \<and>
   encodeURIComponent (world notFound (Inr (okResponse emptyForecast))) (trim (str '' Paris'')) =
     Inr (str ''Paris'') \<and>
   fetchGeo (world notFound (Inr (okResponse emptyForecast))) (geoUrlOf (str ''Paris'')) =
     Inr (okResponse \<lparr>results = None\<rparr>) \<and>
   ok (okResponse \<lparr>results = None\<rparr>) \<and>
   res_json (okResponse \<lparr>results = None\<rparr>) = Inr \<lparr>results = None\<rparr> \<and>
   (results \<lparr>results = None\<rparr> = None \<or> results \<lparr>results = None\<rparr> = Some []) \<and>
   get_weather (world notFound (Inr (okResponse emptyForecast))) (str '' Paris'') =
     (\<lparr>content_text = notFoundMessage (str ''Paris''),
       structuredContent = WeatherError (str '' Paris'') (notFoundMessage (str ''Paris''))\<rparr>,
      [geoUrlOf (str ''Paris'')]) \<and>
   fetchWeatherOpenMeteo (world notFound (Inr (okResponse emptyForecast))) (str '' Paris'') =
     (WeatherError (str ''Paris'') (notFoundMessage (str ''Paris'')), [geoUrlOf (str ''Paris'')]) \<and>
   sublist (str ''Paris'') (notFoundMessage (str ''Paris''))"
proof -
  let ?w = "world notFound (Inr (okResponse emptyForecast))"
  let ?g = "\<lparr>results = None\<rparr> :: OpenMeteoGeocodingResponse"
  have h1: "trim (str '' Paris'') \<noteq> []" by (simp add: trim_sp_Paris str_Paris_nonempty)
  have h2: "encodeURIComponent ?w (trim (str '' Paris'')) = Inr (str ''Paris'')"
    by (simp add: trim_sp_Paris world_def)
  have h3: "fetchGeo ?w (geoUrlOf (str ''Paris'')) = Inr (okResponse ?g)"
    by (simp add: world_def notFound_def)
  have h4: "ok (okResponse ?g)" by (simp add: okResponse_def)
  have h5: "res_json (okResponse ?g) = Inr ?g" by (simp add: okResponse_def)
  have h6: "results ?g = None \<or> results ?g = Some []" by simp
  from no_match_mentions_trimmed_query [OF h1 h2 h3 h4 h5 h6] have c:
    "get_weather ?w (str '' Paris'') =
     (\<lparr>content_text = notFoundMessage (str ''Paris''),
       structuredContent = WeatherError (str '' Paris'') (notFoundMessage (str ''Paris''))\<rparr>,
      [geoUrlOf (str ''Paris'')]) \<and>
     fetchWeatherOpenMeteo ?w (str '' Paris'') =
     (WeatherError (str ''Paris'') (notFoundMessage (str ''Paris'')), [geoUrlOf (str ''Paris'')]) \<and>
     sublist (str ''Paris'') (notFoundMessage (str ''Paris''))"
    by (simp only: trim_sp_Paris)
  from h1 h2 h3 h4 h5 h6 c show ?thesis by (intro conjI) (simp_all only: simp_thms)
qed

text \<open>
  The message holds the trimmed city, not the text as it was typed: for the city
  " Paris", with a leading space, the message of both composers is the one for "Paris",
  and " Paris" does not occur in it.
\<close>

theorem no_match_message_omits_padded_query:
  "errorMessage (structuredContent (fst (get_weather (world notFound (Inr (okResponse emptyForecast))) (str '' Paris'')))) =
     Some (notFoundMessage (str ''Paris'')) \<and>
   errorMessage (fst (fetchWeatherOpenMeteo (world notFound (Inr (okResponse emptyForecast))) (str '' Paris''))) =
     Some (notFoundMessage (str ''Paris'')) \<and>
   \<not> sublist (str '' Paris'') (notFoundMessage (str ''Paris''))"
proof -
  have a: "\<not> sublist (str '' Paris'') (notFoundMessage (str ''Paris''))"
    by (simp add: notFoundMessage_def str_def sublist_code)
  have ne: "str ''Paris'' \<noteq> []" by (simp add: str_def)
  have b: "get_weather (world notFound (Inr (okResponse emptyForecast))) (str '' Paris'') =
     (\<lparr>content_text = notFoundMessage (str ''Paris''),
             structuredContent = WeatherError (str '' Paris'') (notFoundMessage (str ''Paris''))\<rparr>,
            [geoUrlOf (str ''Paris'')])"
    using ne by (simp add: get_weather_def getWeatherForCity_def trim_sp_Paris world_def notFound_def
        okResponse_def fetchJsonOrThrow_def Let_def)
  have c: "fetchWeatherOpenMeteo (world notFound (Inr (okResponse emptyForecast))) (str '' Paris'') =
     (WeatherError (str ''Paris'') (notFoundMessage (str ''Paris'')), [geoUrlOf (str ''Paris'')])"
    using ne by (simp add: fetchWeatherOpenMeteo_def trim_sp_Paris world_def notFound_def
        okResponse_def Let_def)
  show ?thesis using a by (simp add: b c)
qed

section \<open>Failures stay inside the payload\<close>



section \<open>A known match\<close>

text \<open>
  Claim C6, amended. For a city that is not empty after trimming, with a geocoding match
  and a successful forecast call, both composers return a \<open>weather\<close> value whose
  \<open>current.conditions\<close> is one of the strings of the translation table. Its
  \<open>location.name\<close> is empty exactly when the match's \<open>name\<close> is the empty string and
  its \<open>admin1\<close> and \<open>country\<close> are each absent or empty; so it is non-empty whenever the
  match has a non-empty name.
\<close>

theorem known_match_gives_weather:
  assumes "trim city \<noteq> []" "encodeURIComponent e (trim city) = Inr enc"
    and "fetchGeo e (geoUrlOf enc) = Inr geoRes" "ok geoRes" "res_json geoRes = Inr geo"
    and "index0 (results geo) = Some best"
    and "fetchForecast e (forecastUrlOf e (geo_latitude best) (geo_longitude best)) = Inr fcRes"
    and "ok fcRes" "res_json fcRes = Inr f"
  shows
    "(\<exists>d calls.
        get_weather e city =
          (\<lparr>content_text = join [0x0A] (summaryParts e d), structuredContent = Weather d\<rparr>,
           calls) \<and>
        (name (location d) = [] \<longleftrightarrow>
           geo_name best = [] \<and> admin1 best \<in> {None, Some []} \<and> country best \<in> {None, Some []}) \<and>
        conditions (current d) \<in> Some ` set conditionTexts) \<and>
     (\<exists>d calls.
        fetchWeatherOpenMeteo e city = (Weather d, calls) \<and>
        (name (location d) = [] \<longleftrightarrow>
           geo_name best = [] \<and> admin1 best \<in> {None, Some []} \<and> country best \<in> {None, Some []}) \<and>
        conditions (current d) \<in> Some ` set conditionTexts)"
proof (rule conjI)
  let ?label = "join (str '', '') (filterBoolean [Some (geo_name best), admin1 best, country best])"
  let ?loc = "\<lparr>name = ?label, latitude = geo_latitude best, longitude = geo_longitude best,
           timezone = nullishOr (fc_timezone f) (geo_timezone best)\<rparr>"
  let ?calls = "[geoUrlOf enc, forecastUrlOf e (geo_latitude best) (geo_longitude best)]"
  let ?ds = "\<lparr>query = trim city, source = str ''Open-Meteo (no API key)'', location = ?loc,
        current = currentFields [0xC2, 0xB0, 0x43] f, today = todayFields f\<rparr>"
  let ?dp = "\<lparr>query = trim city, source = str ''Open-Meteo (no API key)'', location = ?loc,
        current = currentFields [0xB0, 0x43] f, today = todayFields f\<rparr>"
  have label: "?label = [] \<longleftrightarrow>
      geo_name best = [] \<and> admin1 best \<in> {None, Some []} \<and> country best \<in> {None, Some []}"
    by (rule locationLabel_Nil_iff)
  have cond: "conditions (currentFields degrees f) \<in> Some ` set conditionTexts" for degrees
    by (simp add: currentFields_def wmoWeatherCodeToText_in_table del: set_simps)
  have "getWeatherForCity e city = (Inr (Success ?ds), ?calls)"
    using assms by (rule server_success)
  then have s: "get_weather e city =
      (\<lparr>content_text = join [0x0A] (summaryParts e ?ds), structuredContent = Weather ?ds\<rparr>,
       ?calls)"
    by (rule get_weather_of_Success)
  have "name (location ?ds) = [] \<longleftrightarrow>
      geo_name best = [] \<and> admin1 best \<in> {None, Some []} \<and> country best \<in> {None, Some []}"
    using label by simp
  moreover have "conditions (current ?ds) \<in> Some ` set conditionTexts"
    using cond by simp
  ultimately show "\<exists>d calls.
        get_weather e city =
          (\<lparr>content_text = join [0x0A] (summaryParts e d), structuredContent = Weather d\<rparr>,
           calls) \<and>
        (name (location d) = [] \<longleftrightarrow>
           geo_name best = [] \<and> admin1 best \<in> {None, Some []} \<and> country best \<in> {None, Some []}) \<and>
        conditions (current d) \<in> Some ` set conditionTexts"
    using s by (intro exI [of _ ?ds] exI [of _ ?calls] conjI)
  have p: "fetchWeatherOpenMeteo e city = (Weather ?dp, ?calls)"
    using assms by (rule page_success)
  have "name (location ?dp) = [] \<longleftrightarrow>
      geo_name best = [] \<and> admin1 best \<in> {None, Some []} \<and> country best \<in> {None, Some []}"
    using label by simp
  moreover have "conditions (current ?dp) \<in> Some ` set conditionTexts"
    using cond by simp
  ultimately show "\<exists>d calls.
        fetchWeatherOpenMeteo e city = (Weather d, calls) \<and>
        (name (location d) = [] \<longleftrightarrow>
           geo_name best = [] \<and> admin1 best \<in> {None, Some []} \<and> country best \<in> {None, Some []}) \<and>
        conditions (current d) \<in> Some ` set conditionTexts"
    using p by (intro exI [of _ ?dp] exI [of _ ?calls] conjI)
qed

theorem known_match_gives_weather_witness:
  "trim (str ''Paris'') \<noteq> [] \<and>
   encodeURIComponent (world (found paris) (Inr (okResponse emptyForecast)))
     (trim (str ''Paris'')) = Inr (str ''Paris'') \<and>
   fetchGeo (world (found paris) (Inr (okResponse emptyForecast))) (geoUrlOf (str ''Paris'')) =
     Inr (okResponse \<lparr>results = Some [paris]\<rparr>) \<and>
   ok (okResponse \<lparr>results = Some [paris]\<rparr>) \<and>
   res_json (okResponse \<lparr>results = Some [paris]\<rparr>) = Inr \<lparr>results = Some [paris]\<rparr> \<and>
   index0 (results \<lparr>results = Some [paris]\<rparr>) = Some paris \<and>
   fetchForecast (world (found paris) (Inr (okResponse emptyForecast)))
     (forecastUrlOf (world (found paris) (Inr (okResponse emptyForecast)))
        (geo_latitude paris) (geo_longitude paris)) = Inr (okResponse emptyForecast) \<and>
   ok (okResponse emptyForecast) \<and>
   res_json (okResponse emptyForecast) = Inr emptyForecast \<and>
   (\<exists>d calls.
      get_weather (world (found paris) (Inr (okResponse emptyForecast))) (str ''Paris'') =
        (\<lparr>content_text =
            join [0x0A] (summaryParts (world (found paris) (Inr (okResponse emptyForecast))) d),
          structuredContent = Weather d\<rparr>, calls) \<and>
      (name (location d) = [] \<longleftrightarrow>
         geo_name paris = [] \<and> admin1 paris \<in> {None, Some []} \<and> country paris \<in> {None, Some []}) \<and>
      conditions (current d) \<in> Some ` set conditionTexts) \<and>
   (\<exists>d calls.
      fetchWeatherOpenMeteo (world (found paris) (Inr (okResponse emptyForecast))) (str ''Paris'') =
        (Weather d, calls) \<and>
      (name (location d) = [] \<longleftrightarrow>
         geo_name paris = [] \<and> admin1 paris \<in> {None, Some []} \<and> country paris \<in> {None, Some []}) \<and>
      conditions (current d) \<in> Some ` set conditionTexts) \<and>
   geo_name paris \<noteq> [] \<and>
   structuredContent (fst (get_weather (world (found paris) (Inr (okResponse emptyForecast)))
      (str ''Paris''))) = Weather (parisWeather [0xC2, 0xB0, 0x43]) \<and>
   name (location (parisWeather [0xC2, 0xB0, 0x43])) = str ''Paris, Ile-de-France, France''"
proof -
  let ?w = "world (found paris) (Inr (okResponse emptyForecast))"
  let ?g = "\<lparr>results = Some [paris]\<rparr>"
  have h1: "trim (str ''Paris'') \<noteq> []" by (simp add: trim_Paris str_Paris_nonempty)
  have h2: "encodeURIComponent ?w (trim (str ''Paris'')) = Inr (str ''Paris'')"
    by (simp add: trim_Paris world_def)
  have h3: "fetchGeo ?w (geoUrlOf (str ''Paris'')) = Inr (okResponse ?g)"
    by (simp add: world_def found_def)
  have h4: "ok (okResponse ?g)" by (simp add: okResponse_def)
  have h5: "res_json (okResponse ?g) = Inr ?g" by (simp add: okResponse_def)
  have h6: "index0 (results ?g) = Some paris" by simp
  have h7: "fetchForecast ?w (forecastUrlOf ?w (geo_latitude paris) (geo_longitude paris)) =
      Inr (okResponse emptyForecast)"
    by (simp add: world_def)
  have h8: "ok (okResponse emptyForecast)" by (simp add: okResponse_def)
  have h9: "res_json (okResponse emptyForecast) = Inr emptyForecast" by (simp add: okResponse_def)
  note c = known_match_gives_weather [OF h1 h2 h3 h4 h5 h6 h7 h8 h9]
  have n: "geo_name paris \<noteq> []" by (simp add: paris_def str_def)
  have l: "name (location (parisWeather [0xC2, 0xB0, 0x43])) = str ''Paris, Ile-de-France, France''"
    by (simp add: parisWeather_def)
  have s: "structuredContent (fst (get_weather ?w (str ''Paris''))) =
      Weather (parisWeather [0xC2, 0xB0, 0x43])"
    by (simp add: paris_tool)
  from h1 h2 h3 h4 h5 h6 h7 h8 h9 c n s l show ?thesis
    by (intro conjI) (simp_all only: simp_thms)
qed

text \<open>
  A match may have nothing to show: for a match whose \<open>name\<close> is the empty string,
  without \<open>admin1\<close> and \<open>country\<close>, both composers return a \<open>weather\<close> value whose
  \<open>location.name\<close> is empty.
\<close>

theorem nameless_match_gives_empty_location_name:
  "map_option (name \<circ> location)
     (weatherOf (structuredContent (fst (get_weather
        (world (found nameless) (Inr (okResponse emptyForecast))) (str ''Paris''))))) = Some [] \<and>
   map_option (name \<circ> location)
     (weatherOf (fst (fetchWeatherOpenMeteo
        (world (found nameless) (Inr (okResponse emptyForecast))) (str ''Paris'')))) = Some []"
proof -
  let ?w = "world (found nameless) (Inr (okResponse emptyForecast))"
  let ?loc = "\<lparr>name = join (str '', '')
             (filterBoolean [Some (geo_name nameless), admin1 nameless, country nameless]),
           latitude = geo_latitude nameless, longitude = geo_longitude nameless,
           timezone = nullishOr (fc_timezone emptyForecast) (geo_timezone nameless)\<rparr>"
  have s: "getWeatherForCity ?w (str ''Paris'') =
    (Inr (Success
       \<lparr>query = trim (str ''Paris''), source = str ''Open-Meteo (no API key)'',
        location = ?loc,
        current = currentFields [0xC2, 0xB0, 0x43] emptyForecast,
        today = todayFields emptyForecast\<rparr>),
     [geoUrlOf (str ''Paris''), forecastUrlOf ?w (geo_latitude nameless) (geo_longitude nameless)])"
    by (rule server_success [where geoRes = "okResponse \<lparr>results = Some [nameless]\<rparr>"
          and geo = "\<lparr>results = Some [nameless]\<rparr>" and fcRes = "okResponse emptyForecast"])
       (simp_all add: trim_Paris str_Paris_nonempty world_def found_def okResponse_def)
  have p: "fetchWeatherOpenMeteo ?w (str ''Paris'') =
    (Weather
       \<lparr>query = trim (str ''Paris''), source = str ''Open-Meteo (no API key)'',
        location = ?loc,
        current = currentFields [0xB0, 0x43] emptyForecast,
        today = todayFields emptyForecast\<rparr>,
     [geoUrlOf (str ''Paris''), forecastUrlOf ?w (geo_latitude nameless) (geo_longitude nameless)])"
    by (rule page_success [where geoRes = "okResponse \<lparr>results = Some [nameless]\<rparr>"
          and geo = "\<lparr>results = Some [nameless]\<rparr>" and fcRes = "okResponse emptyForecast"])
       (simp_all add: trim_Paris str_Paris_nonempty world_def found_def okResponse_def)
  show ?thesis
    unfolding get_weather_of_Success [OF s] p nameless_label by simp
qed

section \<open>What the error message holds\<close>

text \<open>
  Claim C7. For a city that is not empty after trimming: when the geocoding call is
  answered with a status that is not a success, the message of the \<open>weather_error\<close>
  holds the decimal digits of that status; likewise when the forecast call is; and when
  the geocoder has no match, the message holds the suggestion to include a country or
  state. This holds for both composers.
\<close>

theorem failure_message_holds_status_or_suggestion:
  assumes ne: "trim city \<noteq> []" and enc: "encodeURIComponent e (trim city) = Inr enc"
  shows
  "(fetchGeo e (geoUrlOf enc) = Inr res1 \<and> \<not> ok res1 \<longrightarrow>
      (\<exists>m. errorMessage (structuredContent (fst (get_weather e city))) = Some m \<and>
           sublist (natToString (status res1)) m) \<and>
      (\<exists>m. errorMessage (fst (fetchWeatherOpenMeteo e city)) = Some m \<and>
           sublist (natToString (status res1)) m)) \<and>
   (fetchGeo e (geoUrlOf enc) = Inr geoRes2 \<and> ok geoRes2 \<and> res_json geoRes2 = Inr geo2 \<and>
    index0 (results geo2) = Some best2 \<and>
    fetchForecast e (forecastUrlOf e (geo_latitude best2) (geo_longitude best2)) = Inr res2 \<and>
    \<not> ok res2 \<longrightarrow>
      (\<exists>m. errorMessage (structuredContent (fst (get_weather e city))) = Some m \<and>
           sublist (natToString (status res2)) m) \<and>
      (\<exists>m. errorMessage (fst (fetchWeatherOpenMeteo e city)) = Some m \<and>
           sublist (natToString (status res2)) m)) \<and>
   (fetchGeo e (geoUrlOf enc) = Inr geoRes3 \<and> ok geoRes3 \<and> res_json geoRes3 = Inr geo3 \<and>
    index0 (results geo3) = None \<longrightarrow>
      (\<exists>m. errorMessage (structuredContent (fst (get_weather e city))) = Some m \<and>
           sublist (str ''Try including a country/state'') m) \<and>
      (\<exists>m. errorMessage (fst (fetchWeatherOpenMeteo e city)) = Some m \<and>
           sublist (str ''Try including a country/state'') m))"
proof (intro conjI impI)
  assume a: "fetchGeo e (geoUrlOf enc) = Inr res1 \<and> \<not> ok res1"
  show "\<exists>m. errorMessage (structuredContent (fst (get_weather e city))) = Some m \<and>
           sublist (natToString (status res1)) m"
    using a by (intro server_geo_status [OF ne enc, of res1]) simp_all
  show "\<exists>m. errorMessage (fst (fetchWeatherOpenMeteo e city)) = Some m \<and>
           sublist (natToString (status res1)) m"
    using a by (intro page_geo_status [OF ne enc, of res1]) simp_all
next
  assume a: "fetchGeo e (geoUrlOf enc) = Inr geoRes2 \<and> ok geoRes2 \<and> res_json geoRes2 = Inr geo2 \<and>
    index0 (results geo2) = Some best2 \<and>
    fetchForecast e (forecastUrlOf e (geo_latitude best2) (geo_longitude best2)) = Inr res2 \<and>
    \<not> ok res2"
  show "\<exists>m. errorMessage (structuredContent (fst (get_weather e city))) = Some m \<and>
           sublist (natToString (status res2)) m"
    using a by (intro server_forecast_status [OF ne enc, of geoRes2 geo2 best2 res2]) simp_all
  show "\<exists>m. errorMessage (fst (fetchWeatherOpenMeteo e city)) = Some m \<and>
           sublist (natToString (status res2)) m"
    using a by (intro page_forecast_status [OF ne enc, of geoRes2 geo2 best2 res2]) simp_all
next
  assume a: "fetchGeo e (geoUrlOf enc) = Inr geoRes3 \<and> ok geoRes3 \<and> res_json geoRes3 = Inr geo3 \<and>
    index0 (results geo3) = None"
  then have a1: "fetchGeo e (geoUrlOf enc) = Inr geoRes3" and a2: "ok geoRes3"
    and a3: "res_json geoRes3 = Inr geo3" and a4: "index0 (results geo3) = None"
    by simp_all
  have j: "fetchJsonOrThrow (fetchGeo e) (geoUrlOf enc) = Inr geo3"
    using a1 a2 a3 by (simp add: fetchJsonOrThrow_ok)
  have "getWeatherForCity e city =
      (Inr (Failure (notFoundMessage (trim city))), [geoUrlOf enc])"
    using ne enc j a4 by (rule server_no_match)
  then have "get_weather e city =
      (\<lparr>content_text = notFoundMessage (trim city),
        structuredContent = WeatherError city (notFoundMessage (trim city))\<rparr>, [geoUrlOf enc])"
    by (rule get_weather_of_Failure)
  then show "\<exists>m. errorMessage (structuredContent (fst (get_weather e city))) = Some m \<and>
           sublist (str ''Try including a country/state'') m"
    by (simp add: notFoundMessage_suggests)
  have "fetchWeatherOpenMeteo e city =
      (WeatherError (trim city) (notFoundMessage (trim city)), [geoUrlOf enc])"
    using ne enc a1 a2 a3 a4 by (rule page_no_match)
  then show "\<exists>m. errorMessage (fst (fetchWeatherOpenMeteo e city)) = Some m \<and>
           sublist (str ''Try including a country/state'') m"
    by (simp add: notFoundMessage_suggests)
qed

theorem failure_message_holds_status_or_suggestion_witness:
  "trim (str ''Paris'') \<noteq> [] \<and>
   fetchGeo (world (Inr (errorResponse 503)) (Inr (okResponse emptyForecast)))
     (geoUrlOf (str ''Paris'')) = Inr (errorResponse 503) \<and>
   \<not> ok (errorResponse 503 :: OpenMeteoGeocodingResponse Response) \<and>
   (\<exists>m. errorMessage (structuredContent (fst (get_weather
          (world (Inr (errorResponse 503)) (Inr (okResponse emptyForecast))) (str ''Paris'')))) =
        Some m \<and> sublist (str ''503'') m) \<and>
   (\<exists>m. errorMessage (fst (fetchWeatherOpenMeteo
          (world (Inr (errorResponse 503)) (Inr (okResponse emptyForecast))) (str ''Paris''))) =
        Some m \<and> sublist (str ''503'') m) \<and>
   fetchGeo (world (found paris) (Inr (errorResponse 500))) (geoUrlOf (str ''Paris'')) =
     Inr (okResponse \<lparr>results = Some [paris]\<rparr>) \<and>
   index0 (results \<lparr>results = Some [paris]\<rparr>) = Some paris \<and>
   fetchForecast (world (found paris) (Inr (errorResponse 500)))
     (forecastUrlOf (world (found paris) (Inr (errorResponse 500)))
        (geo_latitude paris) (geo_longitude paris)) = Inr (errorResponse 500) \<and>
   \<not> ok (errorResponse 500 :: OpenMeteoForecastResponse Response) \<and>
   (\<exists>m. errorMessage (structuredContent (fst (get_weather
          (world (found paris) (Inr (errorResponse 500))) (str ''Paris'')))) =
        Some m \<and> sublist (str ''500'') m) \<and>
   (\<exists>m. errorMessage (fst (fetchWeatherOpenMeteo
          (world (found paris) (Inr (errorResponse 500))) (str ''Paris''))) =
        Some m \<and> sublist (str ''500'') m) \<and>
   fetchGeo (world notFound (Inr (okResponse emptyForecast))) (geoUrlOf (str ''Paris'')) =
     Inr (okResponse \<lparr>results = None\<rparr>) \<and>
   index0 (results \<lparr>results = None\<rparr>) = (None :: GeoResult option) \<and>
   (\<exists>m. errorMessage (structuredContent (fst (get_weather
          (world notFound (Inr (okResponse emptyForecast))) (str ''Paris'')))) =
        Some m \<and> sublist (str ''Try including a country/state'') m) \<and>
   (\<exists>m. errorMessage (fst (fetchWeatherOpenMeteo
          (world notFound (Inr (okResponse emptyForecast))) (str ''Paris''))) =
        Some m \<and> sublist (str ''Try including a country/state'') m)"
proof -
  let ?wg = "world (Inr (errorResponse 503)) (Inr (okResponse emptyForecast))"
  let ?wf = "world (found paris) (Inr (errorResponse 500))"
  let ?wn = "world notFound (Inr (okResponse emptyForecast))"
  let ?g = "\<lparr>results = Some [paris]\<rparr>"
  let ?n = "\<lparr>results = None\<rparr> :: OpenMeteoGeocodingResponse"
  have ne: "trim (str ''Paris'') \<noteq> []" by (simp add: trim_Paris str_Paris_nonempty)
  have enc: "encodeURIComponent (world g f) (trim (str ''Paris'')) = Inr (str ''Paris'')" for g f
    by (simp add: trim_Paris world_def)
  have a1: "fetchGeo ?wg (geoUrlOf (str ''Paris'')) = Inr (errorResponse 503)"
    by (simp add: world_def)
  have a2: "\<not> ok (errorResponse 503 :: OpenMeteoGeocodingResponse Response)"
    by (simp add: errorResponse_def)
  have b1: "fetchGeo ?wf (geoUrlOf (str ''Paris'')) = Inr (okResponse ?g)"
    by (simp add: world_def found_def)
  have b2: "ok (okResponse ?g)" by (simp add: okResponse_def)
  have b3: "res_json (okResponse ?g) = Inr ?g" by (simp add: okResponse_def)
  have b4: "index0 (results ?g) = Some paris" by simp
  have b5: "fetchForecast ?wf (forecastUrlOf ?wf (geo_latitude paris) (geo_longitude paris)) =
      Inr (errorResponse 500)"
    by (simp add: world_def)
  have b6: "\<not> ok (errorResponse 500 :: OpenMeteoForecastResponse Response)"
    by (simp add: errorResponse_def)
  have c1: "fetchGeo ?wn (geoUrlOf (str ''Paris'')) = Inr (okResponse ?n)"
    by (simp add: world_def notFound_def)
  have c2: "ok (okResponse ?n)" by (simp add: okResponse_def)
  have c3: "res_json (okResponse ?n) = Inr ?n" by (simp add: okResponse_def)
  have c4': "index0 (results ?n) = (None :: GeoResult option)" by simp
  have r1: "(\<exists>m. errorMessage (structuredContent (fst (get_weather ?wg (str ''Paris'')))) =
        Some m \<and> sublist (str ''503'') m) \<and>
      (\<exists>m. errorMessage (fst (fetchWeatherOpenMeteo ?wg (str ''Paris''))) =
        Some m \<and> sublist (str ''503'') m)"
    using failure_message_holds_status_or_suggestion [OF ne enc, THEN conjunct1, THEN mp, OF conjI [OF a1 a2]]
    by (simp only: status_errorResponse natToString_503)
  have r2: "(\<exists>m. errorMessage (structuredContent (fst (get_weather ?wf (str ''Paris'')))) =
        Some m \<and> sublist (str ''500'') m) \<and>
      (\<exists>m. errorMessage (fst (fetchWeatherOpenMeteo ?wf (str ''Paris''))) =
        Some m \<and> sublist (str ''500'') m)"
    using failure_message_holds_status_or_suggestion [OF ne enc, THEN conjunct2, THEN conjunct1, THEN mp,
        OF conjI [OF b1 conjI [OF b2 conjI [OF b3 conjI [OF b4 conjI [OF b5 b6]]]]]]
    by (simp only: status_errorResponse natToString_500)
  have r3: "(\<exists>m. errorMessage (structuredContent (fst (get_weather ?wn (str ''Paris'')))) =
        Some m \<and> sublist (str ''Try including a country/state'') m) \<and>
      (\<exists>m. errorMessage (fst (fetchWeatherOpenMeteo ?wn (str ''Paris''))) =
        Some m \<and> sublist (str ''Try including a country/state'') m)"
    using failure_message_holds_status_or_suggestion [OF ne enc, THEN conjunct2, THEN conjunct2, THEN mp,
        OF conjI [OF c1 conjI [OF c2 conjI [OF c3 c4']]]]
    by (simp only:)
  from ne a1 a2 r1 b1 b4 b5 b6 r2 c1 c4' r3 show ?thesis
    by (intro conjI) (simp_all only: simp_thms)
qed

section \<open>The forecast adapter on the coordinates of the result\<close>


section \<open>Conditions are always defined\<close>

text \<open>
  Claim C9. The translator maps an absent weather code to "Unknown conditions". In
  every \<open>weather\<close> result of a composer \<open>current.conditions\<close> is present and is the
  translation of \<open>current.weatherCode\<close>; when the weather code is absent it is
  "Unknown conditions".
\<close>

theorem conditions_always_defined:
  "wmoWeatherCodeToText None = str ''Unknown conditions'' \<and>
   (structuredContent (fst (get_weather e city)) = Weather d \<longrightarrow>
      conditions (current d) = Some (wmoWeatherCodeToText (weatherCode (current d))) \<and>
      conditions (current d) \<noteq> None \<and>
      (weatherCode (current d) = None \<longrightarrow>
         conditions (current d) = Some (str ''Unknown conditions''))) \<and>
   (fst (fetchWeatherOpenMeteo e city) = Weather d' \<longrightarrow>
      conditions (current d') = Some (wmoWeatherCodeToText (weatherCode (current d'))) \<and>
      conditions (current d') \<noteq> None \<and>
      (weatherCode (current d') = None \<longrightarrow>
         conditions (current d') = Some (str ''Unknown conditions'')))"
proof (intro conjI impI)
  show "wmoWeatherCodeToText None = str ''Unknown conditions''" by (rule wmo_None)
next
  assume "structuredContent (fst (get_weather e city)) = Weather d"
  then have "fst (getWeatherForCity e city) = Inr (Success d)"
    by (simp add: get_weather_Weather_iff)
  from server_success_cases [OF this] obtain f where
    c: "current d = currentFields [0xC2, 0xB0, 0x43] f"
    by blast
  show k: "conditions (current d) = Some (wmoWeatherCodeToText (weatherCode (current d)))"
    unfolding c by (rule conditions_currentFields)
  then show "conditions (current d) \<noteq> None" by simp
  assume "weatherCode (current d) = None"
  with k show "conditions (current d) = Some (str ''Unknown conditions'')"
    by (simp add: wmo_None)
next
  assume "fst (fetchWeatherOpenMeteo e city) = Weather d'"
  from page_success_cases [OF this] obtain f where
    c: "current d' = currentFields [0xB0, 0x43] f"
    by blast
  show k: "conditions (current d') = Some (wmoWeatherCodeToText (weatherCode (current d')))"
    unfolding c by (rule conditions_currentFields)
  then show "conditions (current d') \<noteq> None" by simp
  assume "weatherCode (current d') = None"
  with k show "conditions (current d') = Some (str ''Unknown conditions'')"
    by (simp add: wmo_None)
qed

theorem conditions_always_defined_witness:
  "structuredContent (fst (get_weather (world (found paris) (Inr (okResponse emptyForecast)))
      (str ''Paris''))) = Weather (parisWeather [0xC2, 0xB0, 0x43]) \<and>
   weatherCode (current (parisWeather [0xC2, 0xB0, 0x43])) = None \<and>
   conditions (current (parisWeather [0xC2, 0xB0, 0x43])) = Some (str ''Unknown conditions'') \<and>
   fst (fetchWeatherOpenMeteo (world (found paris) (Inr (okResponse emptyForecast)))
      (str ''Paris'')) = Weather (parisWeather [0xB0, 0x43]) \<and>
   weatherCode (current (parisWeather [0xB0, 0x43])) = None \<and>
   conditions (current (parisWeather [0xB0, 0x43])) = Some (str ''Unknown conditions'')"
proof -
  have s: "structuredContent (fst (get_weather (world (found paris) (Inr (okResponse emptyForecast)))
      (str ''Paris''))) = Weather (parisWeather [0xC2, 0xB0, 0x43])"
    by (simp add: paris_tool)
  have p: "fst (fetchWeatherOpenMeteo (world (found paris) (Inr (okResponse emptyForecast)))
      (str ''Paris'')) = Weather (parisWeather [0xB0, 0x43])"
    by (simp add: paris_page)
  have n: "weatherCode (current (parisWeather degrees)) = None" for degrees
    by (simp add: parisWeather_def)
  have n1: "weatherCode (current (parisWeather [0xC2, 0xB0, 0x43])) = None" by (rule n)
  have n2: "weatherCode (current (parisWeather [0xB0, 0x43])) = None" by (rule n)
  from conditions_always_defined [of "world (found paris) (Inr (okResponse emptyForecast))" "str ''Paris''"
      "parisWeather [0xC2, 0xB0, 0x43]" "parisWeather [0xB0, 0x43]"] s p n1 n2
  show ?thesis by (intro conjI) (simp_all only: simp_thms)
qed

section \<open>Which fields of a result are present\<close>

text \<open>
  Claim C10. In every \<open>weather\<close> result of a composer, \<open>current.time\<close>,
  \<open>current.temperature\<close>, \<open>current.windSpeed\<close>, \<open>current.weatherCode\<close>,
  \<open>today.date\<close>, \<open>today.high\<close>, \<open>today.low\<close> and \<open>today.precipitationChance\<close> are
  what the forecast response holds, absent where it omits them; \<open>current.temperatureUnit\<close>,
  \<open>current.windSpeedUnit\<close>, \<open>current.conditions\<close> and
  \<open>today.precipitationChanceUnit\<close> are present, \<open>query\<close> is the trimmed city,
  \<open>source\<close> the name of the service and the coordinates those of the match. Whatever
  the forecast response omits, a geocoding match with a successful forecast call gives a
  \<open>weather\<close> result and no error.
\<close>

theorem weather_result_population:
  "(structuredContent (fst (get_weather e city)) = Weather d \<longrightarrow>
      (\<exists>(best :: GeoResult) fcRes f.
         latitude (location d) = geo_latitude best \<and>
         longitude (location d) = geo_longitude best \<and>
         fetchForecast e (forecastUrlOf e (geo_latitude best) (geo_longitude best)) = Inr fcRes \<and>
         ok fcRes \<and> res_json fcRes = Inr f \<and>
         time (current d) = Option.bind (fc_current f) cur_time \<and>
         temperature (current d) = Option.bind (fc_current f) temperature_2m \<and>
         windSpeed (current d) = Option.bind (fc_current f) wind_speed_10m \<and>
         weatherCode (current d) = Option.bind (fc_current f) weather_code \<and>
         date (today d) = index0 (Option.bind (daily f) daily_time) \<and>
         high (today d) = index0 (Option.bind (daily f) temperature_2m_max) \<and>
         low (today d) = index0 (Option.bind (daily f) temperature_2m_min) \<and>
         precipitationChance (today d) =
           index0 (Option.bind (daily f) precipitation_probability_max)) \<and>
      temperatureUnit (current d) \<noteq> None \<and> windSpeedUnit (current d) \<noteq> None \<and>
      conditions (current d) \<noteq> None \<and> precipitationChanceUnit (today d) \<noteq> None \<and>
      query d = trim city \<and> source d = str ''Open-Meteo (no API key)'') \<and>
   (fst (fetchWeatherOpenMeteo e city) = Weather d' \<longrightarrow>
      (\<exists>(best :: GeoResult) fcRes f.
         latitude (location d') = geo_latitude best \<and>
         longitude (location d') = geo_longitude best \<and>
         fetchForecast e (forecastUrlOf e (geo_latitude best) (geo_longitude best)) = Inr fcRes \<and>
         ok fcRes \<and> res_json fcRes = Inr f \<and>
         time (current d') = Option.bind (fc_current f) cur_time \<and>
         temperature (current d') = Option.bind (fc_current f) temperature_2m \<and>
         windSpeed (current d') = Option.bind (fc_current f) wind_speed_10m \<and>
         weatherCode (current d') = Option.bind (fc_current f) weather_code \<and>
         date (today d') = index0 (Option.bind (daily f) daily_time) \<and>
         high (today d') = index0 (Option.bind (daily f) temperature_2m_max) \<and>
         low (today d') = index0 (Option.bind (daily f) temperature_2m_min) \<and>
         precipitationChance (today d') =
           index0 (Option.bind (daily f) precipitation_probability_max)) \<and>
      temperatureUnit (current d') \<noteq> None \<and> windSpeedUnit (current d') \<noteq> None \<and>
      conditions (current d') \<noteq> None \<and> precipitationChanceUnit (today d') \<noteq> None \<and>
      query d' = trim city \<and> source d' = str ''Open-Meteo (no API key)'') \<and>
   (trim city \<noteq> [] \<and> encodeURIComponent e (trim city) = Inr enc \<and>
    fetchGeo e (geoUrlOf enc) = Inr geoRes \<and> ok geoRes \<and> res_json geoRes = Inr geo \<and>
    index0 (results geo) = Some match \<and>
    fetchForecast e (forecastUrlOf e (geo_latitude match) (geo_longitude match)) = Inr fcRes \<and>
    ok fcRes \<and> res_json fcRes = Inr f \<longrightarrow>
      (\<exists>r. structuredContent (fst (get_weather e city)) = Weather r) \<and>
      (\<exists>r. fst (fetchWeatherOpenMeteo e city) = Weather r))"
proof (intro conjI impI)
  assume a: "trim city \<noteq> [] \<and> encodeURIComponent e (trim city) = Inr enc \<and>
    fetchGeo e (geoUrlOf enc) = Inr geoRes \<and> ok geoRes \<and> res_json geoRes = Inr geo \<and>
    index0 (results geo) = Some match \<and>
    fetchForecast e (forecastUrlOf e (geo_latitude match) (geo_longitude match)) = Inr fcRes \<and>
    ok fcRes \<and> res_json fcRes = Inr f"
  then have a1: "trim city \<noteq> []" and a2: "encodeURIComponent e (trim city) = Inr enc"
    and a3: "fetchGeo e (geoUrlOf enc) = Inr geoRes" and a4: "ok geoRes"
    and a5: "res_json geoRes = Inr geo" and a6: "index0 (results geo) = Some match"
    and a7: "fetchForecast e (forecastUrlOf e (geo_latitude match) (geo_longitude match)) =
      Inr fcRes"
    and a8: "ok fcRes" and a9: "res_json fcRes = Inr f"
    by simp_all
  from get_weather_of_Success [OF server_success [OF a1 a2 a3 a4 a5 a6 a7 a8 a9]]
  show "\<exists>r. structuredContent (fst (get_weather e city)) = Weather r" by simp
  from page_success [OF a1 a2 a3 a4 a5 a6 a7 a8 a9]
  show "\<exists>r. fst (fetchWeatherOpenMeteo e city) = Weather r" by simp
next
  assume "structuredContent (fst (get_weather e city)) = Weather d"
  then have "fst (getWeatherForCity e city) = Inr (Success d)"
    by (simp add: get_weather_Weather_iff)
  from server_success_cases [OF this] obtain best :: GeoResult and fcRes f where
    h: "fetchForecast e (forecastUrlOf e (geo_latitude best) (geo_longitude best)) = Inr fcRes"
      "ok fcRes" "res_json fcRes = Inr f"
    and l: "latitude (location d) = geo_latitude best" "longitude (location d) = geo_longitude best"
    and c: "current d = currentFields [0xC2, 0xB0, 0x43] f" and t: "today d = todayFields f"
    and q: "query d = trim city" "source d = str ''Open-Meteo (no API key)''"
    by blast
  have "time (current d) = Option.bind (fc_current f) cur_time \<and>
         temperature (current d) = Option.bind (fc_current f) temperature_2m \<and>
         windSpeed (current d) = Option.bind (fc_current f) wind_speed_10m \<and>
         weatherCode (current d) = Option.bind (fc_current f) weather_code \<and>
         date (today d) = index0 (Option.bind (daily f) daily_time) \<and>
         high (today d) = index0 (Option.bind (daily f) temperature_2m_max) \<and>
         low (today d) = index0 (Option.bind (daily f) temperature_2m_min) \<and>
         precipitationChance (today d) =
           index0 (Option.bind (daily f) precipitation_probability_max)"
    unfolding c t by (simp add: currentFields_def todayFields_def)
  with h l show "\<exists>(best :: GeoResult) fcRes f.
         latitude (location d) = geo_latitude best \<and>
         longitude (location d) = geo_longitude best \<and>
         fetchForecast e (forecastUrlOf e (geo_latitude best) (geo_longitude best)) = Inr fcRes \<and>
         ok fcRes \<and> res_json fcRes = Inr f \<and>
         time (current d) = Option.bind (fc_current f) cur_time \<and>
         temperature (current d) = Option.bind (fc_current f) temperature_2m \<and>
         windSpeed (current d) = Option.bind (fc_current f) wind_speed_10m \<and>
         weatherCode (current d) = Option.bind (fc_current f) weather_code \<and>
         date (today d) = index0 (Option.bind (daily f) daily_time) \<and>
         high (today d) = index0 (Option.bind (daily f) temperature_2m_max) \<and>
         low (today d) = index0 (Option.bind (daily f) temperature_2m_min) \<and>
         precipitationChance (today d) =
           index0 (Option.bind (daily f) precipitation_probability_max)"
    by blast
  show "temperatureUnit (current d) \<noteq> None" unfolding c by (simp add: currentFields_def)
  show "windSpeedUnit (current d) \<noteq> None" unfolding c by (simp add: currentFields_def)
  show "conditions (current d) \<noteq> None" unfolding c by (simp add: currentFields_def)
  show "precipitationChanceUnit (today d) \<noteq> None" unfolding t by (simp add: todayFields_def)
  show "query d = trim city" by (rule q(1))
  show "source d = str ''Open-Meteo (no API key)''" by (rule q(2))
next
  assume "fst (fetchWeatherOpenMeteo e city) = Weather d'"
  from page_success_cases [OF this] obtain best :: GeoResult and fcRes f where
    h: "fetchForecast e (forecastUrlOf e (geo_latitude best) (geo_longitude best)) = Inr fcRes"
      "ok fcRes" "res_json fcRes = Inr f"
    and l: "latitude (location d') = geo_latitude best" "longitude (location d') = geo_longitude best"
    and c: "current d' = currentFields [0xB0, 0x43] f" and t: "today d' = todayFields f"
    and q: "query d' = trim city" "source d' = str ''Open-Meteo (no API key)''"
    by blast
  have "time (current d') = Option.bind (fc_current f) cur_time \<and>
         temperature (current d') = Option.bind (fc_current f) temperature_2m \<and>
         windSpeed (current d') = Option.bind (fc_current f) wind_speed_10m \<and>
         weatherCode (current d') = Option.bind (fc_current f) weather_code \<and>
         date (today d') = index0 (Option.bind (daily f) daily_time) \<and>
         high (today d') = index0 (Option.bind (daily f) temperature_2m_max) \<and>
         low (today d') = index0 (Option.bind (daily f) temperature_2m_min) \<and>
         precipitationChance (today d') =
           index0 (Option.bind (daily f) precipitation_probability_max)"
    unfolding c t by (simp add: currentFields_def todayFields_def)
  with h l show "\<exists>(best :: GeoResult) fcRes f.
         latitude (location d') = geo_latitude best \<and>
         longitude (location d') = geo_longitude best \<and>
         fetchForecast e (forecastUrlOf e (geo_latitude best) (geo_longitude best)) = Inr fcRes \<and>
         ok fcRes \<and> res_json fcRes = Inr f \<and>
         time (current d') = Option.bind (fc_current f) cur_time \<and>
         temperature (current d') = Option.bind (fc_current f) temperature_2m \<and>
         windSpeed (current d') = Option.bind (fc_current f) wind_speed_10m \<and>
         weatherCode (current d') = Option.bind (fc_current f) weather_code \<and>
         date (today d') = index0 (Option.bind (daily f) daily_time) \<and>
         high (today d') = index0 (Option.bind (daily f) temperature_2m_max) \<and>
         low (today d') = index0 (Option.bind (daily f) temperature_2m_min) \<and>
         precipitationChance (today d') =
           index0 (Option.bind (daily f) precipitation_probability_max)"
    by blast
  show "temperatureUnit (current d') \<noteq> None" unfolding c by (simp add: currentFields_def)
  show "windSpeedUnit (current d') \<noteq> None" unfolding c by (simp add: currentFields_def)
  show "conditions (current d') \<noteq> None" unfolding c by (simp add: currentFields_def)
  show "precipitationChanceUnit (today d') \<noteq> None" unfolding t by (simp add: todayFields_def)
  show "query d' = trim city" by (rule q(1))
  show "source d' = str ''Open-Meteo (no API key)''" by (rule q(2))
qed

theorem weather_result_population_witness:
  "structuredContent (fst (get_weather (world (found paris) (Inr (okResponse emptyForecast))) (str
      ''Paris''))) = Weather (parisWeather [0xC2, 0xB0, 0x43]) \<and>
   fst (fetchWeatherOpenMeteo (world (found paris) (Inr (okResponse emptyForecast))) (str
       ''Paris'')) = Weather (parisWeather [0xB0, 0x43]) \<and>
   trim (str ''Paris'') \<noteq> [] \<and>
   encodeURIComponent (world (found paris) (Inr (okResponse emptyForecast))) (trim (str
       ''Paris'')) = Inr (str ''Paris'') \<and>
   fetchGeo (world (found paris) (Inr (okResponse emptyForecast))) (geoUrlOf (str ''Paris'')) =
       Inr (okResponse \<lparr>results = Some [paris]\<rparr>) \<and>
   ok (okResponse \<lparr>results = Some [paris]\<rparr>) \<and>
   res_json (okResponse \<lparr>results = Some [paris]\<rparr>) = Inr \<lparr>results =
       Some [paris]\<rparr> \<and>
   index0 (results \<lparr>results = Some [paris]\<rparr>) = Some paris \<and>
   fetchForecast (world (found paris) (Inr (okResponse emptyForecast))) (forecastUrlOf (world
       (found paris) (Inr (okResponse emptyForecast))) (geo_latitude paris) (geo_longitude paris))
           =
     Inr (okResponse emptyForecast) \<and>
   ok (okResponse emptyForecast) \<and>
   res_json (okResponse emptyForecast) = Inr emptyForecast \<and>
   ((\<exists>(best :: GeoResult) fcRes f.
         latitude (location (parisWeather [0xC2, 0xB0, 0x43])) = geo_latitude best \<and>
         longitude (location (parisWeather [0xC2, 0xB0, 0x43])) = geo_longitude best \<and>
         fetchForecast (world (found paris) (Inr (okResponse emptyForecast))) (forecastUrlOf
             (world (found paris) (Inr (okResponse emptyForecast))) (geo_latitude best)
                 (geo_longitude best)) = Inr fcRes \<and>
         ok fcRes \<and> res_json fcRes = Inr f \<and>
         time (current (parisWeather [0xC2, 0xB0, 0x43])) =
             Option.bind (fc_current f) cur_time \<and>
         temperature (current (parisWeather [0xC2, 0xB0, 0x43])) =
             Option.bind (fc_current f) temperature_2m \<and>
         windSpeed (current (parisWeather [0xC2, 0xB0, 0x43])) =
             Option.bind (fc_current f) wind_speed_10m \<and>
         weatherCode (current (parisWeather [0xC2, 0xB0, 0x43])) =
             Option.bind (fc_current f) weather_code \<and>
         date (today (parisWeather [0xC2, 0xB0, 0x43])) =
             index0 (Option.bind (daily f) daily_time) \<and>
         high (today (parisWeather [0xC2, 0xB0, 0x43])) =
             index0 (Option.bind (daily f) temperature_2m_max) \<and>
         low (today (parisWeather [0xC2, 0xB0, 0x43])) =
             index0 (Option.bind (daily f) temperature_2m_min) \<and>
         precipitationChance (today (parisWeather [0xC2, 0xB0, 0x43])) =
           index0 (Option.bind (daily f) precipitation_probability_max)) \<and>
      temperatureUnit (current (parisWeather [0xC2, 0xB0, 0x43])) \<noteq> None \<and>
          windSpeedUnit (current (parisWeather [0xC2, 0xB0, 0x43])) \<noteq> None \<and>
      conditions (current (parisWeather [0xC2, 0xB0, 0x43])) \<noteq> None \<and>
          precipitationChanceUnit (today (parisWeather [0xC2, 0xB0, 0x43])) \<noteq> None \<and>
      query (parisWeather [0xC2, 0xB0, 0x43]) = trim (str ''Paris'') \<and>
          source (parisWeather [0xC2, 0xB0, 0x43]) = str ''Open-Meteo (no API key)'') \<and>
   ((\<exists>(best :: GeoResult) fcRes f.
         latitude (location (parisWeather [0xB0, 0x43])) = geo_latitude best \<and>
         longitude (location (parisWeather [0xB0, 0x43])) = geo_longitude best \<and>
         fetchForecast (world (found paris) (Inr (okResponse emptyForecast))) (forecastUrlOf
             (world (found paris) (Inr (okResponse emptyForecast))) (geo_latitude best)
                 (geo_longitude best)) = Inr fcRes \<and>
         ok fcRes \<and> res_json fcRes = Inr f \<and>
         time (current (parisWeather [0xB0, 0x43])) = Option.bind (fc_current f) cur_time \<and>
         temperature (current (parisWeather [0xB0, 0x43])) =
             Option.bind (fc_current f) temperature_2m \<and>
         windSpeed (current (parisWeather [0xB0, 0x43])) =
             Option.bind (fc_current f) wind_speed_10m \<and>
         weatherCode (current (parisWeather [0xB0, 0x43])) =
             Option.bind (fc_current f) weather_code \<and>
         date (today (parisWeather [0xB0, 0x43])) = index0 (Option.bind (daily f) daily_time) \<and>
         high (today (parisWeather [0xB0, 0x43])) =
             index0 (Option.bind (daily f) temperature_2m_max) \<and>
         low (today (parisWeather [0xB0, 0x43])) =
             index0 (Option.bind (daily f) temperature_2m_min) \<and>
         precipitationChance (today (parisWeather [0xB0, 0x43])) =
           index0 (Option.bind (daily f) precipitation_probability_max)) \<and>
      temperatureUnit (current (parisWeather [0xB0, 0x43])) \<noteq> None \<and>
          windSpeedUnit (current (parisWeather [0xB0, 0x43])) \<noteq> None \<and>
      conditions (current (parisWeather [0xB0, 0x43])) \<noteq> None \<and>
          precipitationChanceUnit (today (parisWeather [0xB0, 0x43])) \<noteq> None \<and>
      query (parisWeather [0xB0, 0x43]) = trim (str ''Paris'') \<and>
          source (parisWeather [0xB0, 0x43]) = str ''Open-Meteo (no API key)'') \<and>
   ((\<exists>r. structuredContent (fst (get_weather (world (found paris) (Inr (okResponse
       emptyForecast))) (str ''Paris''))) = Weather r) \<and>
      (\<exists>r. fst (fetchWeatherOpenMeteo (world (found paris) (Inr (okResponse emptyForecast))) (str
          ''Paris'')) = Weather r)) \<and>
   current (parisWeather [0xC2, 0xB0, 0x43]) =
     \<lparr>time = None, temperature = None, temperatureUnit = Some [0xC2, 0xB0, 0x43],
      windSpeed = None, windSpeedUnit = Some (str ''km/h''), weatherCode = None,
      conditions = Some (str ''Unknown conditions'')\<rparr> \<and>
   today (parisWeather [0xC2, 0xB0, 0x43]) =
     \<lparr>date = None, high = None, low = None, precipitationChance = None,
      precipitationChanceUnit = Some (str ''%'')\<rparr>"
proof -
  let ?w = "world (found paris) (Inr (okResponse emptyForecast))"
  let ?g = "\<lparr>results = Some [paris]\<rparr>"
  have s: "structuredContent (fst (get_weather ?w (str ''Paris''))) =
      Weather (parisWeather [0xC2, 0xB0, 0x43])"
    by (simp add: paris_tool)
  have p: "fst (fetchWeatherOpenMeteo ?w (str ''Paris'')) = Weather (parisWeather [0xB0, 0x43])"
    by (simp add: paris_page)
  have h1: "trim (str ''Paris'') \<noteq> []" by (simp add: trim_Paris str_Paris_nonempty)
  have h2: "encodeURIComponent ?w (trim (str ''Paris'')) = Inr (str ''Paris'')"
    by (simp add: trim_Paris world_def)
  have h3: "fetchGeo ?w (geoUrlOf (str ''Paris'')) = Inr (okResponse ?g)"
    by (simp add: world_def found_def)
  have h4: "ok (okResponse ?g)" by (simp add: okResponse_def)
  have h5: "res_json (okResponse ?g) = Inr ?g" by (simp add: okResponse_def)
  have h6: "index0 (results ?g) = Some paris" by simp
  have h7: "fetchForecast ?w (forecastUrlOf ?w (geo_latitude paris) (geo_longitude paris)) =
      Inr (okResponse emptyForecast)"
    by (simp add: world_def)
  have h8: "ok (okResponse emptyForecast)" by (simp add: okResponse_def)
  have h9: "res_json (okResponse emptyForecast) = Inr emptyForecast" by (simp add: okResponse_def)
  note c = weather_result_population [where e = ?w and city = "str ''Paris''" and d =
      "parisWeather [0xC2, 0xB0, 0x43]"
      and d' = "parisWeather [0xB0, 0x43]"]
  have A: "(\<exists>(best :: GeoResult) fcRes f.
         latitude (location (parisWeather [0xC2, 0xB0, 0x43])) = geo_latitude best \<and>
         longitude (location (parisWeather [0xC2, 0xB0, 0x43])) = geo_longitude best \<and>
         fetchForecast (world (found paris) (Inr (okResponse emptyForecast))) (forecastUrlOf
             (world (found paris) (Inr (okResponse emptyForecast))) (geo_latitude best)
                 (geo_longitude best)) = Inr fcRes \<and>
         ok fcRes \<and> res_json fcRes = Inr f \<and>
         time (current (parisWeather [0xC2, 0xB0, 0x43])) =
             Option.bind (fc_current f) cur_time \<and>
         temperature (current (parisWeather [0xC2, 0xB0, 0x43])) =
             Option.bind (fc_current f) temperature_2m \<and>
         windSpeed (current (parisWeather [0xC2, 0xB0, 0x43])) =
             Option.bind (fc_current f) wind_speed_10m \<and>
         weatherCode (current (parisWeather [0xC2, 0xB0, 0x43])) =
             Option.bind (fc_current f) weather_code \<and>
         date (today (parisWeather [0xC2, 0xB0, 0x43])) =
             index0 (Option.bind (daily f) daily_time) \<and>
         high (today (parisWeather [0xC2, 0xB0, 0x43])) =
             index0 (Option.bind (daily f) temperature_2m_max) \<and>
         low (today (parisWeather [0xC2, 0xB0, 0x43])) =
             index0 (Option.bind (daily f) temperature_2m_min) \<and>
         precipitationChance (today (parisWeather [0xC2, 0xB0, 0x43])) =
           index0 (Option.bind (daily f) precipitation_probability_max)) \<and>
      temperatureUnit (current (parisWeather [0xC2, 0xB0, 0x43])) \<noteq> None \<and>
          windSpeedUnit (current (parisWeather [0xC2, 0xB0, 0x43])) \<noteq> None \<and>
      conditions (current (parisWeather [0xC2, 0xB0, 0x43])) \<noteq> None \<and>
          precipitationChanceUnit (today (parisWeather [0xC2, 0xB0, 0x43])) \<noteq> None \<and>
      query (parisWeather [0xC2, 0xB0, 0x43]) = trim (str ''Paris'') \<and>
          source (parisWeather [0xC2, 0xB0, 0x43]) = str ''Open-Meteo (no API key)''"
    by (rule c [THEN conjunct1, THEN mp, OF s])
  have B: "(\<exists>(best :: GeoResult) fcRes f.
         latitude (location (parisWeather [0xB0, 0x43])) = geo_latitude best \<and>
         longitude (location (parisWeather [0xB0, 0x43])) = geo_longitude best \<and>
         fetchForecast (world (found paris) (Inr (okResponse emptyForecast))) (forecastUrlOf
             (world (found paris) (Inr (okResponse emptyForecast))) (geo_latitude best)
                 (geo_longitude best)) = Inr fcRes \<and>
         ok fcRes \<and> res_json fcRes = Inr f \<and>
         time (current (parisWeather [0xB0, 0x43])) = Option.bind (fc_current f) cur_time \<and>
         temperature (current (parisWeather [0xB0, 0x43])) =
             Option.bind (fc_current f) temperature_2m \<and>
         windSpeed (current (parisWeather [0xB0, 0x43])) =
             Option.bind (fc_current f) wind_speed_10m \<and>
         weatherCode (current (parisWeather [0xB0, 0x43])) =
             Option.bind (fc_current f) weather_code \<and>
         date (today (parisWeather [0xB0, 0x43])) = index0 (Option.bind (daily f) daily_time) \<and>
         high (today (parisWeather [0xB0, 0x43])) =
             index0 (Option.bind (daily f) temperature_2m_max) \<and>
         low (today (parisWeather [0xB0, 0x43])) =
             index0 (Option.bind (daily f) temperature_2m_min) \<and>
         precipitationChance (today (parisWeather [0xB0, 0x43])) =
           index0 (Option.bind (daily f) precipitation_probability_max)) \<and>
      temperatureUnit (current (parisWeather [0xB0, 0x43])) \<noteq> None \<and>
          windSpeedUnit (current (parisWeather [0xB0, 0x43])) \<noteq> None \<and>
      conditions (current (parisWeather [0xB0, 0x43])) \<noteq> None \<and>
          precipitationChanceUnit (today (parisWeather [0xB0, 0x43])) \<noteq> None \<and>
      query (parisWeather [0xB0, 0x43]) = trim (str ''Paris'') \<and>
          source (parisWeather [0xB0, 0x43]) = str ''Open-Meteo (no API key)''"
    by (rule c [THEN conjunct2, THEN conjunct1, THEN mp, OF p])
  have C: "(\<exists>r. structuredContent (fst (get_weather (world (found paris) (Inr (okResponse
      emptyForecast))) (str ''Paris''))) = Weather r) \<and>
      (\<exists>r. fst (fetchWeatherOpenMeteo (world (found paris) (Inr (okResponse emptyForecast))) (str
          ''Paris'')) = Weather r)"
    by (rule c [THEN conjunct2, THEN conjunct2, THEN mp,
          OF conjI [OF h1 conjI [OF h2 conjI [OF h3 conjI [OF h4 conjI [OF h5
            conjI [OF h6 conjI [OF h7 conjI [OF h8 h9]]]]]]]]])
  have k1: "current (parisWeather [0xC2, 0xB0, 0x43]) =
     \<lparr>time = None, temperature = None, temperatureUnit = Some [0xC2, 0xB0, 0x43],
      windSpeed = None, windSpeedUnit = Some (str ''km/h''), weatherCode = None,
      conditions = Some (str ''Unknown conditions'')\<rparr>"
    by (simp add: parisWeather_def)
  have k2: "today (parisWeather [0xC2, 0xB0, 0x43]) =
     \<lparr>date = None, high = None, low = None, precipitationChance = None,
      precipitationChanceUnit = Some (str ''%'')\<rparr>"
    by (simp add: parisWeather_def)
  from s p h1 h2 h3 h4 h5 h6 h7 h8 h9 A B C k1 k2 show ?thesis
    by (intro conjI) (simp_all only: simp_thms)
qed

end
